theory Spec2Isabelle
  imports Main "HOL-Library.AList"
begin

section \<open>The library layer the parser scripts are written against\<close>

subsection \<open>Element trees (xml.etree.ElementTree)\<close>

text \<open>
  An element has a tag (the namespace-qualified name \<open>{uri}local\<close>), an attribute
  dictionary (keys qualified the same way), a text that is \<open>None\<close> when the element
  has no character data before its first child, and its children in document order.
\<close>

datatype element =
  Element (el_tag: string) (el_attrib: "(string \<times> string) list")
          (el_text: "string option") (el_children: "element list")

text \<open>The qualified name a prefixed name \<open>wd:local\<close> resolves to under a prefix map.\<close>

definition qname :: "string \<Rightarrow> string \<Rightarrow> string" where
  "qname uri l = CHR ''{'' # uri @ CHR ''}'' # l"

text \<open>
  The paths the scripts pass to \<open>find\<close>, \<open>findall\<close> and \<open>findtext\<close>, already
  tokenised: \<open>.\<close> is \<open>[Self]\<close>, \<open>wd:A/wd:B\<close> is \<open>[Child A, Child B]\<close> and
  \<open>.//wd:ID[@wd:type='v']\<close> is \<open>[Self, Descendant ID, AttrEq type v]\<close>.
\<close>

datatype step = Self | Child string | Descendant string | AttrEq string string

type_synonym path = "step list"

text \<open>\<open>Element.iter()\<close>: the element and all its descendants, in document order.\<close>

fun iter :: "element \<Rightarrow> element list" where
  "iter (Element t a x cs) = Element t a x cs # concat (map iter cs)"

text \<open>\<open>Element.get(key)\<close>: the attribute value, or \<open>None\<close>.\<close>

definition el_get :: "element \<Rightarrow> string \<Rightarrow> string option" where
  "el_get e k = map_of (el_attrib e) k"

text \<open>One selector of ElementPath, applied to the stream of context elements.\<close>

fun select :: "step \<Rightarrow> element list \<Rightarrow> element list" where
  "select Self result = result"
| "select (Child t) result =
     concat (map (\<lambda>e. filter (\<lambda>c. el_tag c = t) (el_children e)) result)"
| "select (Descendant t) result =
     concat (map (\<lambda>e. filter (\<lambda>c. el_tag c = t) (concat (map iter (el_children e)))) result)"
| "select (AttrEq k v) result = filter (\<lambda>e. el_get e k = Some v) result"

definition iterfind :: "element \<Rightarrow> path \<Rightarrow> element list" where
  "iterfind e p = fold select p [e]"

definition el_findall :: "element \<Rightarrow> path \<Rightarrow> element list" where
  "el_findall e p = iterfind e p"

definition el_find :: "element \<Rightarrow> path \<Rightarrow> element option" where
  "el_find e p = (case iterfind e p of [] \<Rightarrow> None | x # _ \<Rightarrow> Some x)"

text \<open>\<open>findtext\<close>: the text of the first match (\<open>''\<close> when it has none), else the default.\<close>

definition el_findtext :: "element \<Rightarrow> path \<Rightarrow> string \<Rightarrow> string" where
  "el_findtext e p dflt =
     (case iterfind e p of
        [] \<Rightarrow> dflt
      | x # _ \<Rightarrow> (case el_text x of None \<Rightarrow> [] | Some t \<Rightarrow> t))"

subsection \<open>Python values and dictionaries\<close>

text \<open>A value that is either \<open>None\<close> or a \<open>str\<close>.\<close>

type_synonym pyval = "string option"

text \<open>
  A \<open>dict\<close> with string keys, in insertion order. \<open>d[k] = v\<close> overwrites in place or
  appends; \<open>d.get(k, default)\<close> reads.
\<close>

type_synonym 'v dict = "(string \<times> 'v) list"

definition dict_set :: "'v dict \<Rightarrow> string \<Rightarrow> 'v \<Rightarrow> 'v dict" where
  "dict_set d k v = AList.update k v d"

definition dict_get :: "'v dict \<Rightarrow> string \<Rightarrow> 'v \<Rightarrow> 'v" where
  "dict_get d k dflt = (case map_of d k of None \<Rightarrow> dflt | Some v \<Rightarrow> v)"

definition dict_keys :: "'v dict \<Rightarrow> string list" where
  "dict_keys d = map fst d"

text \<open>A run of assignments \<open>d[k1] = v1; d[k2] = v2; ...\<close>, in order.\<close>

definition dict_assign :: "'v dict \<Rightarrow> (string \<times> 'v) list \<Rightarrow> 'v dict" where
  "dict_assign d kvs = fold (\<lambda>(k, v) d. dict_set d k v) kvs d"

text \<open>\<open>s.startswith(p)\<close>.\<close>

definition startswith :: "string \<Rightarrow> string \<Rightarrow> bool" where
  "startswith s p = (take (length p) s = p)"

subsection \<open>Exceptions, files and the clock\<close>

text \<open>
  What attribute access on \<open>None\<close> raises, what \<open>ET.parse\<close> raises, and the other
  exceptions of the drivers (the clock's and \<open>csv.DictWriter\<close>'s).
\<close>

datatype attribute_error = AttributeError

datatype parse_failure = FileNotFoundError | ParseError

datatype exn = OSError | OverflowError | ValueError

text \<open>
  A file holds a well-formed XML document, a table written by the csv module (its
  rows, each a list of fields), or bytes that are neither. The file system maps the
  paths that exist to their contents.
\<close>

datatype content = Xml element | Csv "string list list" | Garbage

type_synonym fs = "string \<Rightarrow> content option"

definition os_path_exists :: "fs \<Rightarrow> string \<Rightarrow> bool" where
  "os_path_exists f p = (f p \<noteq> None)"

text \<open>\<open>ET.parse(path).getroot()\<close>.\<close>

definition ET_parse :: "fs \<Rightarrow> string \<Rightarrow> parse_failure + element" where
  "ET_parse f p =
     (case f p of
        None \<Rightarrow> Inl FileNotFoundError
      | Some (Xml root) \<Rightarrow> Inr root
      | Some _ \<Rightarrow> Inl ParseError)"

text \<open>\<open>open(path, 'w')\<close>, \<open>csv.writer\<close>, one \<open>writerow\<close> per row: the file is replaced.\<close>

definition write_rows :: "fs \<Rightarrow> string \<Rightarrow> string list list \<Rightarrow> fs" where
  "write_rows f p rows = f(p \<mapsto> Csv rows)"

text \<open>How the csv module writes a field: \<open>None\<close> as the empty field, a string as itself.\<close>

definition csv_field :: "pyval \<Rightarrow> string" where
  "csv_field v = (case v of None \<Rightarrow> [] | Some s \<Rightarrow> s)"

text \<open>
  The local calendar date of a file's last modification, as
  \<open>datetime.fromtimestamp(os.path.getmtime(path))\<close> gives it; either call may raise.
  A \<open>datetime\<close> has a year from 1 to 9999, a month from 1 to 12 and a day from 1 to 31.
\<close>

record datetime =
  year :: nat
  month :: nat
  day :: nat

type_synonym clock = "string \<Rightarrow> exn + datetime"

definition digit :: "nat \<Rightarrow> char" where
  "digit n = ''0123456789'' ! (n mod 10)"

text \<open>\<open>%m\<close> and \<open>%d\<close>: two digits, zero-padded.\<close>

definition pad2 :: "nat \<Rightarrow> string" where
  "pad2 n = [digit (n div 10), digit n]"

text \<open>
  \<open>%Y\<close> as the C library behind \<open>strftime\<close> writes it on Linux: the year in decimal,
  without padding (a year below 1000 has fewer than four digits there; other platforms
  pad it, and from 1000 on all agree).
\<close>

fun decimal_string :: "nat \<Rightarrow> string" where
  "decimal_string n =
     (if n < 10 then [digit n] else decimal_string (n div 10) @ [digit n])"

declare decimal_string.simps [simp del]

text \<open>\<open>strftime('%Y-%m-%d')\<close>.\<close>

definition strftime_Ymd :: "datetime \<Rightarrow> string" where
  "strftime_Ymd dt =
     decimal_string (year dt) @ ''-'' @ pad2 (month dt) @ ''-'' @ pad2 (day dt)"

text \<open>The try/except block every driver computes the provenance date with.\<close>

definition formatted_mod_date :: "clock \<Rightarrow> string \<Rightarrow> string" where
  "formatted_mod_date getmtime xml_input_file =
     (case getmtime xml_input_file of
        Inr dt \<Rightarrow> strftime_Ymd dt
      | Inl e \<Rightarrow> [])"

text \<open>
  \<open>csv.DictWriter(fieldnames=...).writerow(rowdict)\<close>: a key outside the field names
  raises \<open>ValueError\<close>, a missing key is written as the empty field.
\<close>

definition DictWriter_row :: "string list \<Rightarrow> pyval dict \<Rightarrow> exn + string list" where
  "DictWriter_row fieldnames rowdict =
     (if list_all (\<lambda>k. k \<in> set fieldnames) (dict_keys rowdict)
      then Inr (map (\<lambda>key. csv_field (dict_get rowdict key (Some []))) fieldnames)
      else Inl ValueError)"

fun DictWriter_rows :: "string list \<Rightarrow> pyval dict list \<Rightarrow> exn + string list list" where
  "DictWriter_rows fieldnames [] = Inr []"
| "DictWriter_rows fieldnames (r # rs) =
     (case DictWriter_row fieldnames r of
        Inl e \<Rightarrow> Inl e
      | Inr line \<Rightarrow>
          (case DictWriter_rows fieldnames rs of
             Inl e \<Rightarrow> Inl e
           | Inr lines \<Rightarrow> Inr (line # lines)))"

text \<open>\<open>writeheader()\<close> followed by one \<open>writerow\<close> per dictionary.\<close>

definition write_dict_rows :: "fs \<Rightarrow> string \<Rightarrow> string list \<Rightarrow> pyval dict list \<Rightarrow> exn + fs" where
  "write_dict_rows f p fieldnames rowdicts =
     (case DictWriter_rows fieldnames rowdicts of
        Inl e \<Rightarrow> Inl e
      | Inr lines \<Rightarrow> Inr (write_rows f p (fieldnames # lines)))"

section \<open>xml_parser_costing_allocations_daily.py\<close>

definition NAMESPACE_costing :: string where
  "NAMESPACE_costing =
     ''urn:com.workday.report/RPT-INTF-S111B-(NSHE)_CSN_PositionFunding-Actuals''"

definition wdc :: "string \<Rightarrow> string" where
  "wdc l = qname NAMESPACE_costing l"

definition headers_costing :: "string list" where
  "headers_costing =
     [''Position_ID'', ''Employee_ID'', ''Active_Status'', ''Worker_Company_ID'',
      ''CF-FormattedEffectiveDate'', ''FYStartDate'', ''FYEndDate'',
      ''CF-Ledger'', ''Earning_Code'', ''CF-WorktagDriverCode-Combo'', ''CF-WorktagDriverCode'',
      ''CAllocation_StartDate'', ''Distribution_Percent'', ''Costing_Company_Reference_ID'',
      ''Allocation_WID'', ''Updated_Date'']"

text \<open>The key lists of lines 70 and 105.\<close>

definition worker_keys :: "string list" where
  "worker_keys =
     [''Position_ID'', ''Employee_ID'', ''Active_Status'', ''Worker_Company_ID'',
      ''CF-FormattedEffectiveDate'', ''FYStartDate'', ''FYEndDate'']"

definition allocation_keys :: "string list" where
  "allocation_keys =
     [''CF-Ledger'', ''Earning_Code'', ''CF-WorktagDriverCode-Combo'', ''CF-WorktagDriverCode'',
      ''CAllocation_StartDate'', ''Distribution_Percent'', ''Costing_Company_Reference_ID'',
      ''Allocation_WID'']"

text \<open>Lines 59-73: the entry-level dictionary.\<close>

definition worker_data_of :: "string \<Rightarrow> element \<Rightarrow> string dict" where
  "worker_data_of file_modification_date report_entry =
     (let worker_data =
        (case el_find report_entry [Child (wdc ''Worker'')] of
           Some worker_element \<Rightarrow>
             dict_assign []
               [(''Position_ID'', el_findtext worker_element [Child (wdc ''Position_ID'')] []),
                (''Employee_ID'', el_findtext worker_element [Child (wdc ''Employee_ID'')] []),
                (''Active_Status'', el_findtext worker_element [Child (wdc ''Active_Status'')] []),
                (''Worker_Company_ID'', el_findtext worker_element [Child (wdc ''Company_ID'')] []),
                (''CF-FormattedEffectiveDate'',
                   el_findtext worker_element [Child (wdc ''CF-FormattedEffectiveDate'')] []),
                (''FYStartDate'', el_findtext worker_element [Child (wdc ''FYStartDate'')] []),
                (''FYEndDate'', el_findtext worker_element [Child (wdc ''FYEndDate'')] [])]
         | None \<Rightarrow> dict_assign [] (map (\<lambda>header_key. (header_key, [])) worker_keys))
      in dict_set worker_data ''Updated_Date'' file_modification_date)"

text \<open>Lines 82-86 and 93-97: the typed ID below a sub-element of the allocation.\<close>

definition typed_id_costing :: "element option \<Rightarrow> string \<Rightarrow> string" where
  "typed_id_costing container type_value =
     (case container of
        Some c \<Rightarrow>
          el_findtext c [Self, Descendant (wdc ''ID''), AttrEq (wdc ''type'') type_value] []
      | None \<Rightarrow> [])"

text \<open>Lines 78-99: the dictionary of one allocation.\<close>

definition allocation_data :: "string dict \<Rightarrow> element \<Rightarrow> string dict" where
  "allocation_data worker_data alloc_detail =
     dict_assign worker_data
       [(''CF-Ledger'', el_findtext alloc_detail [Child (wdc ''CF-Ledger'')] []),
        (''Earning_Code'',
           typed_id_costing (el_find alloc_detail [Child (wdc ''EarningType'')]) ''Earning_Code''),
        (''CF-WorktagDriverCode-Combo'',
           el_findtext alloc_detail [Child (wdc ''CF-WorktagDriverCode-Combo'')] []),
        (''CF-WorktagDriverCode'',
           el_findtext alloc_detail [Child (wdc ''CF-WorktagDriverCode'')] []),
        (''CAllocation_StartDate'',
           el_findtext alloc_detail [Child (wdc ''CAllocation_StartDate'')] []),
        (''Distribution_Percent'',
           el_findtext alloc_detail [Child (wdc ''Distribution_Percent'')] []),
        (''Costing_Company_Reference_ID'',
           typed_id_costing (el_find alloc_detail [Child (wdc ''Costing_Company'')])
             ''Company_Reference_ID''),
        (''Allocation_WID'', el_findtext alloc_detail [Child (wdc ''WID'')] [])]"

text \<open>Lines 101 and 108: the row appended for a dictionary.\<close>

definition row_of :: "string dict \<Rightarrow> string list" where
  "row_of current_row_data = map (\<lambda>header. dict_get current_row_data header []) headers_costing"

text \<open>Lines 104-106: the dictionary of an entry without allocations.\<close>

definition no_allocation_data :: "string dict \<Rightarrow> string dict" where
  "no_allocation_data worker_data =
     dict_assign worker_data (map (\<lambda>header_key. (header_key, [])) allocation_keys)"

text \<open>Lines 58-108: the rows one report entry appends to \<open>all_rows\<close>.\<close>

definition entry_rows_costing :: "string \<Rightarrow> element \<Rightarrow> string list list" where
  "entry_rows_costing file_modification_date report_entry =
     (let worker_data = worker_data_of file_modification_date report_entry;
          allocation_details_elements =
            el_findall report_entry [Child (wdc ''AllocationDetails'')]
      in if allocation_details_elements \<noteq> []
         then map (\<lambda>alloc_detail. row_of (allocation_data worker_data alloc_detail))
                allocation_details_elements
         else [row_of (no_allocation_data worker_data)])"

text \<open>The loop over the report entries of a parsed document.\<close>

definition rows_of_root_costing :: "string \<Rightarrow> element \<Rightarrow> string list list" where
  "rows_of_root_costing file_modification_date root =
     concat (map (entry_rows_costing file_modification_date)
               (el_findall root [Child (wdc ''Report_Entry'')]))"

text \<open>\<open>parse_funding_actuals_xml\<close>: \<open>None\<close> on a missing or unparsable file.\<close>

definition parse_funding_actuals_xml :: "fs \<Rightarrow> string \<Rightarrow> string \<Rightarrow> string list list option" where
  "parse_funding_actuals_xml f xml_path file_modification_date =
     (case ET_parse f xml_path of
        Inl FileNotFoundError \<Rightarrow> None
      | Inl ParseError \<Rightarrow> None
      | Inr root \<Rightarrow> Some (rows_of_root_costing file_modification_date root))"

text \<open>\<open>write_to_csv\<close> (lines 111-138).\<close>

definition write_to_csv_costing ::
    "string list list option \<Rightarrow> string \<Rightarrow> string list \<Rightarrow> fs \<Rightarrow> fs" where
  "write_to_csv_costing data_rows csv_path column_headers f =
     (case data_rows of
        None \<Rightarrow> write_rows f csv_path [column_headers]
      | Some rows \<Rightarrow> write_rows f csv_path (column_headers # rows))"

text \<open>The main block (lines 141-180), from the file system before to the one after.\<close>

definition main_costing :: "clock \<Rightarrow> string \<Rightarrow> string \<Rightarrow> fs \<Rightarrow> fs" where
  "main_costing getmtime xml_input_file csv_output_file f =
     (if \<not> os_path_exists f xml_input_file
      then write_rows f csv_output_file [headers_costing]
      else
        (let mod_date = formatted_mod_date getmtime xml_input_file;
             parsed_rows = parse_funding_actuals_xml f xml_input_file mod_date
         in if parsed_rows \<noteq> None
            then write_to_csv_costing parsed_rows csv_output_file headers_costing f
            else if \<not> os_path_exists f csv_output_file
            then write_rows f csv_output_file [headers_costing]
            else f))"

section \<open>xml_parser_position_compensation.py\<close>

definition NAMESPACE_comp :: string where
  "NAMESPACE_comp = ''urn:com.workday.report/RPT-INTF-S111-CSN-PositionOtherCompensation''"

definition wdp :: "string \<Rightarrow> string" where
  "wdp l = qname NAMESPACE_comp l"

text \<open>
  The operations of the helpers' try blocks. \<open>element.find\<close>, \<open>.text\<close> and
  \<open>.get\<close> raise \<open>AttributeError\<close> when the object is \<open>None\<close>.
\<close>

definition py_find :: "element option \<Rightarrow> path \<Rightarrow> attribute_error + element option" where
  "py_find element p =
     (case element of None \<Rightarrow> Inl AttributeError | Some e \<Rightarrow> Inr (el_find e p))"

definition py_text :: "element option \<Rightarrow> attribute_error + pyval" where
  "py_text node = (case node of None \<Rightarrow> Inl AttributeError | Some e \<Rightarrow> Inr (el_text e))"

definition py_get :: "element option \<Rightarrow> string \<Rightarrow> attribute_error + pyval" where
  "py_get node k = (case node of None \<Rightarrow> Inl AttributeError | Some e \<Rightarrow> Inr (el_get e k))"

text \<open>\<open>get_text\<close> (lines 37-41).\<close>

definition get_text_comp :: "element option \<Rightarrow> path \<Rightarrow> pyval \<Rightarrow> pyval" where
  "get_text_comp element p dflt =
     (case py_find element p of
        Inl AttributeError \<Rightarrow> dflt
      | Inr node \<Rightarrow>
          (case py_text node of
             Inl AttributeError \<Rightarrow> dflt
           | Inr t \<Rightarrow> t))"

text \<open>\<open>get_attribute\<close> (lines 44-57).\<close>

definition get_attribute_comp :: "element option \<Rightarrow> path \<Rightarrow> string \<Rightarrow> pyval \<Rightarrow> pyval" where
  "get_attribute_comp element p attribute_name dflt =
     (case (if p = [Self] then Inr element else py_find element p) of
        Inl AttributeError \<Rightarrow> dflt
      | Inr target_element \<Rightarrow>
          (case target_element of
             Some t \<Rightarrow>
               (case el_get t (qname NAMESPACE_comp attribute_name) of
                  Some attr_value \<Rightarrow> Some attr_value
                | None \<Rightarrow> dflt)
           | None \<Rightarrow> dflt))"

text \<open>
  The loop of \<open>get_typed_id_text\<close> over the \<open>wd:ID\<close> children: it returns at the
  first child whose type attribute is the requested one, and falls through to
  \<open>return default\<close>.
\<close>

fun typed_id_loop :: "string \<Rightarrow> element list \<Rightarrow> string \<Rightarrow> pyval \<Rightarrow> pyval" where
  "typed_id_loop type_key [] id_type_value dflt = dflt"
| "typed_id_loop type_key (id_elem # rest) id_type_value dflt =
     (if el_get id_elem type_key = Some id_type_value
      then (case el_text id_elem of Some t \<Rightarrow> Some t | None \<Rightarrow> dflt)
      else typed_id_loop type_key rest id_type_value dflt)"

text \<open>\<open>get_typed_id_text\<close> (lines 60-69).\<close>

definition get_typed_id_text_comp :: "element option \<Rightarrow> path \<Rightarrow> string \<Rightarrow> pyval \<Rightarrow> pyval" where
  "get_typed_id_text_comp element path_to_parent_of_ids id_type_value dflt =
     (case py_find element path_to_parent_of_ids of
        Inl AttributeError \<Rightarrow> dflt
      | Inr parent_of_ids \<Rightarrow>
          (case parent_of_ids of
             Some parent \<Rightarrow>
               typed_id_loop (qname NAMESPACE_comp ''type'')
                 (el_findall parent [Child (wdp ''ID'')]) id_type_value dflt
           | None \<Rightarrow> dflt))"

definition headers_comp :: "string list" where
  "headers_comp =
     [''Position_ID'', ''Employee_ID'',
      ''Job_Family_Group_Descriptor'', ''Job_Family_Group_WID'',
      ''Job_Family_Group_Job_Family_ID'',
      ''CF_Staffing_Status_Descriptor'', ''CF_Staffing_Status_WID'',
      ''CF_Staffing_Status_Staffing_Interface_Status_for_CRF_ID'',
      ''CF_JobCode'', ''Terminated_based_on_report_date'',
      ''Compensation_Element_Descriptor'', ''Compensation_Element_WID'',
      ''Compensation_Element_Compensation_Element_ID'',
      ''Annualized_Amount'',
      ''Updated_Date'']"

text \<open>Lines 92-114: the entry-level dictionary.\<close>

definition worker_group_data_of :: "string \<Rightarrow> element \<Rightarrow> pyval dict" where
  "worker_group_data_of file_modification_date report_entry =
     (let worker_group_data =
        (case el_find report_entry [Child (wdp ''Worker_group'')] of
           None \<Rightarrow> []
         | Some worker_group_element \<Rightarrow>
             (let d = dict_assign []
               [(''Position_ID'',
                  get_text_comp (Some worker_group_element) [Child (wdp ''Position_ID'')] (Some [])),
                (''Employee_ID'',
                  get_text_comp (Some worker_group_element) [Child (wdp ''Employee_ID'')] (Some []))];
                  d = (case el_find worker_group_element [Child (wdp ''Job_Family_Group'')] of
                         None \<Rightarrow> d
                       | Some job_family_group_el \<Rightarrow>
                           dict_assign d
                             [(''Job_Family_Group_Descriptor'',
                                get_attribute_comp (Some job_family_group_el) [Self] ''Descriptor'' (Some [])),
                              (''Job_Family_Group_WID'',
                                get_typed_id_text_comp (Some job_family_group_el) [Self] ''WID'' (Some [])),
                              (''Job_Family_Group_Job_Family_ID'',
                                get_typed_id_text_comp (Some job_family_group_el) [Self] ''Job_Family_ID'' (Some []))]);
                  d = (case el_find worker_group_element [Child (wdp ''CF-Staffing_Status'')] of
                         None \<Rightarrow> d
                       | Some cf_staffing_status_el \<Rightarrow>
                           dict_assign d
                             [(''CF_Staffing_Status_Descriptor'',
                                get_attribute_comp (Some cf_staffing_status_el) [Self] ''Descriptor'' (Some [])),
                              (''CF_Staffing_Status_WID'',
                                get_typed_id_text_comp (Some cf_staffing_status_el) [Self] ''WID'' (Some [])),
                              (''CF_Staffing_Status_Staffing_Interface_Status_for_CRF_ID'',
                                get_typed_id_text_comp (Some cf_staffing_status_el) [Self] ''Staffing_Interface_Status_for_CRF_ID'' (Some []))])
              in dict_assign d
                [(''CF_JobCode'',
                   get_text_comp (Some worker_group_element) [Child (wdp ''CF-JobCode'')] (Some [])),
                 (''Terminated_based_on_report_date'',
                   get_text_comp (Some worker_group_element) [Child (wdp ''Terminated__based_on_report_date_'')] (Some []))]))
      in dict_set worker_group_data ''Updated_Date'' (Some file_modification_date))"

text \<open>Lines 120-128: the dictionary of one compensation plan assignment.\<close>

definition comp_assignment_row :: "pyval dict \<Rightarrow> element \<Rightarrow> pyval dict" where
  "comp_assignment_row worker_group_data comp_assignment_el =
     (let current_row = worker_group_data;
          current_row =
            (case el_find comp_assignment_el [Child (wdp ''Compensation_Element'')] of
               None \<Rightarrow> current_row
             | Some comp_element_el \<Rightarrow>
                 dict_assign current_row
                   [(''Compensation_Element_Descriptor'',
                      get_attribute_comp (Some comp_element_el) [Self] ''Descriptor'' (Some [])),
                    (''Compensation_Element_WID'',
                      get_typed_id_text_comp (Some comp_element_el) [Self] ''WID'' (Some [])),
                    (''Compensation_Element_Compensation_Element_ID'',
                      get_typed_id_text_comp (Some comp_element_el) [Self] ''Compensation_Element_ID'' (Some []))])
      in dict_assign current_row
        [(''Annualized_Amount'',
           get_text_comp (Some comp_assignment_el) [Child (wdp ''Annualized_Amount'')] (Some []))])"

text \<open>Lines 134-137: the dictionary of a worker group without assignments.\<close>

definition empty_comp_row :: "pyval dict \<Rightarrow> pyval dict" where
  "empty_comp_row worker_group_data =
     fold (\<lambda>header empty_comp_row.
             if header \<notin> set (dict_keys empty_comp_row)
             then dict_set empty_comp_row header (Some [])
             else empty_comp_row)
       headers_comp worker_group_data"

text \<open>Lines 91-139: the dictionaries one report entry appends to \<open>all_rows_data\<close>.\<close>

definition entry_rows_comp :: "string \<Rightarrow> element \<Rightarrow> pyval dict list" where
  "entry_rows_comp file_modification_date report_entry =
     (let worker_group_element = el_find report_entry [Child (wdp ''Worker_group'')];
          worker_group_data = worker_group_data_of file_modification_date report_entry;
          comp_assignments = el_findall report_entry [Child (wdp ''Compensation_Plan_Assignments'')];
          comp_assignments_found = (comp_assignments \<noteq> [])
      in map (comp_assignment_row worker_group_data) comp_assignments @
         (if worker_group_element \<noteq> None \<and> \<not> comp_assignments_found
          then [empty_comp_row worker_group_data]
          else []))"

text \<open>
  \<open>parse_xml_data\<close> (lines 82-155): the rows, or \<open>None\<close> after writing a header-only
  output when the file is missing or unparsable.
\<close>

definition parse_xml_data_comp ::
    "fs \<Rightarrow> string \<Rightarrow> string \<Rightarrow> string \<Rightarrow> pyval dict list option \<times> fs" where
  "parse_xml_data_comp f xml_path csv_output_file file_modification_date =
     (case ET_parse f xml_path of
        Inr root \<Rightarrow>
          (Some (concat (map (entry_rows_comp file_modification_date)
                           (el_findall root [Child (wdp ''Report_Entry'')]))), f)
      | Inl FileNotFoundError \<Rightarrow> (None, write_rows f csv_output_file [headers_comp])
      | Inl ParseError \<Rightarrow> (None, write_rows f csv_output_file [headers_comp]))"

text \<open>Line 188: the dictionary handed to the writer for a row.\<close>

definition row_to_write :: "string list \<Rightarrow> pyval dict \<Rightarrow> pyval dict" where
  "row_to_write hs data_row =
     dict_assign [] (map (\<lambda>header. (header, dict_get data_row header (Some []))) hs)"

text \<open>The main block (lines 158-198).\<close>

definition main_comp :: "clock \<Rightarrow> string \<Rightarrow> string \<Rightarrow> fs \<Rightarrow> exn + fs" where
  "main_comp getmtime xml_input_file csv_output_file f =
     (if \<not> os_path_exists f xml_input_file
      then Inr (write_rows f csv_output_file [headers_comp])
      else
        (let mod_date = formatted_mod_date getmtime xml_input_file;
             (all_rows_data, f1) = parse_xml_data_comp f xml_input_file csv_output_file mod_date
         in case all_rows_data of
              None \<Rightarrow> Inr f1
            | Some rows \<Rightarrow>
                if rows \<noteq> []
                then write_dict_rows f1 csv_output_file headers_comp
                       (map (row_to_write headers_comp) rows)
                else if os_path_exists f1 xml_input_file
                then Inr (write_rows f1 csv_output_file [headers_comp])
                else Inr f1))"

section \<open>xml_parser_worktag_grant.py\<close>

definition NAMESPACE_grant :: string where
  "NAMESPACE_grant = ''urn:com.workday.report/intf-s111-c04''"

definition wdg :: "string \<Rightarrow> string" where
  "wdg l = qname NAMESPACE_grant l"

text \<open>\<open>get_text\<close> (lines 38-44).\<close>

definition get_text_grant :: "element option \<Rightarrow> path \<Rightarrow> pyval \<Rightarrow> pyval" where
  "get_text_grant element p dflt =
     (if element = None then dflt
      else
        (case py_find element p of
           Inl AttributeError \<Rightarrow> dflt
         | Inr node \<Rightarrow>
             (case node of
                Some n \<Rightarrow> (case el_text n of Some t \<Rightarrow> Some t | None \<Rightarrow> dflt)
              | None \<Rightarrow> dflt)))"

text \<open>\<open>get_attribute\<close> (lines 47-56).\<close>

definition get_attribute_grant :: "element option \<Rightarrow> path \<Rightarrow> string \<Rightarrow> pyval \<Rightarrow> pyval" where
  "get_attribute_grant element p attribute_name dflt =
     (if element = None then dflt
      else
        (case (if p = [Self] then Inr element else py_find element p) of
           Inl AttributeError \<Rightarrow> dflt
         | Inr target_element \<Rightarrow>
             (case target_element of
                Some t \<Rightarrow>
                  (case el_get t (qname NAMESPACE_grant attribute_name) of
                     Some attr_value \<Rightarrow> Some attr_value
                   | None \<Rightarrow> dflt)
              | None \<Rightarrow> dflt)))"

text \<open>\<open>get_typed_id_text\<close> (lines 59-69); its loop is the one of the compensation script.\<close>

definition get_typed_id_text_grant :: "element option \<Rightarrow> path \<Rightarrow> string \<Rightarrow> pyval \<Rightarrow> pyval" where
  "get_typed_id_text_grant element path_to_parent_of_ids id_type_value dflt =
     (if element = None then dflt
      else
        (case py_find element path_to_parent_of_ids of
           Inl AttributeError \<Rightarrow> dflt
         | Inr parent_of_ids \<Rightarrow>
             (case parent_of_ids of
                Some parent \<Rightarrow>
                  typed_id_loop (qname NAMESPACE_grant ''type'')
                    (el_findall parent [Child (wdg ''ID'')]) id_type_value dflt
              | None \<Rightarrow> dflt)))"

definition headers_grant :: "string list" where
  "headers_grant =
     [''Code_Description_Descriptor'', ''Code_Description_WID'', ''Code_Description_Grant_ID'',
      ''Code'',
      ''Parent'',
      ''Grant_Description'',
      ''Grant_Cost_Center_Descriptor'', ''Grant_Cost_Center_WID'',
      ''Grant_Cost_Center_Organization_Reference_ID'',
      ''Grant_Cost_Center_Cost_Center_Reference_ID'',
      ''Included_in_Grant_Hierarchies_Descriptor'', ''Included_in_Grant_Hierarchies_WID'',
      ''Included_in_Grant_Hierarchies_Grant_Hierarchy_ID'',
      ''Institution_Hierarchy_Node_Grants_Descriptor'', ''Institution_Hierarchy_Node_Grants_WID'',
      ''Institution_Hierarchy_Node_Grants_Grant_Hierarchy_ID'',
      ''Unit_Descriptor'', ''Unit_WID'', ''Unit_Organization_Reference_ID'',
      ''Unit_Custom_Organization_Reference_ID'',
      ''Worktag_Fund_Descriptor'', ''Worktag_Fund_WID'', ''Worktag_Fund_ID'',
      ''Worktag_Function_Descriptor'', ''Worktag_Function_WID'',
      ''Worktag_Function_Organization_Reference_ID'',
      ''Worktag_Function_Custom_Organization_Reference_ID'',
      ''Worktag_Unit_Descriptor'', ''Worktag_Unit_WID'', ''Worktag_Unit_Organization_Reference_ID'',
      ''Worktag_Unit_Custom_Organization_Reference_ID'',
      ''Worktag_Cost_Center_Descriptor'', ''Worktag_Cost_Center_WID'',
      ''Worktag_Cost_Center_Organization_Reference_ID'',
      ''Worktag_Cost_Center_Cost_Center_Reference_ID'',
      ''Grant_Manager_Descriptor'', ''Grant_Manager_WID'', ''Grant_Manager_Employee_ID'',
      ''Grant_Accountant_Descriptor'', ''Grant_Accountant_WID'', ''Grant_Accountant_Employee_ID'',
      ''Grant_Owner_Descriptor'', ''Grant_Owner_WID'', ''Grant_Owner_Employee_ID'',
      ''Has_Program'', ''Has_Grant_Cost_Center'', ''Has_Program_Cost_Center'',
      ''Company_Descriptor'', ''Company_WID'', ''Company_Organization_Reference_ID'',
      ''Company_Company_Reference_ID'',
      ''Owner_Descriptor'', ''Owner_WID'', ''Owner_Employee_ID'',
      ''Inactive'',
      ''Fund_Code'',
      ''Function_Code'',
      ''Unit_Code'',
      ''Updated_Date'']"

text \<open>Lines 108-114: the fresh row of an entry.\<close>

definition init_row_grant :: "string \<Rightarrow> pyval dict" where
  "init_row_grant file_modification_date =
     (let row_data = dict_assign [] (map (\<lambda>header. (header, Some [])) headers_grant)
      in dict_set row_data ''Updated_Date'' (Some file_modification_date))"

text \<open>Lines 116-150: the assignments before the worktags.\<close>

definition fields_before_worktags :: "element \<Rightarrow> (string \<times> pyval) list" where
  "fields_before_worktags report_entry =
     (let cd_el = el_find report_entry [Child (wdg ''Code_Description'')];
          gcc_el = el_find report_entry [Child (wdg ''Grant_Cost_Center'')];
          iigh_el = el_find report_entry [Child (wdg ''Included_in_Grant_Hierarchies'')];
          ihng_el = el_find report_entry [Child (wdg ''Institution_Hierarchy_Node_-_Grants'')];
          unit_el = el_find report_entry [Child (wdg ''Unit'')]
      in
        [(''Code_Description_Descriptor'',
           get_attribute_grant cd_el [Self] ''Descriptor'' (Some [])),
         (''Code_Description_WID'', get_typed_id_text_grant cd_el [Self] ''WID'' (Some [])),
         (''Code_Description_Grant_ID'',
           get_typed_id_text_grant cd_el [Self] ''Grant_ID'' (Some []))] @
        [(''Code'', get_text_grant (Some report_entry) [Child (wdg ''Code'')] (Some [])),
         (''Parent'', get_text_grant (Some report_entry) [Child (wdg ''Parent'')] (Some [])),
         (''Grant_Description'',
           get_text_grant (Some report_entry) [Child (wdg ''Grant_Description'')] (Some []))] @
        [(''Grant_Cost_Center_Descriptor'',
           get_attribute_grant gcc_el [Self] ''Descriptor'' (Some [])),
         (''Grant_Cost_Center_WID'', get_typed_id_text_grant gcc_el [Self] ''WID'' (Some [])),
         (''Grant_Cost_Center_Organization_Reference_ID'',
           get_typed_id_text_grant gcc_el [Self] ''Organization_Reference_ID'' (Some [])),
         (''Grant_Cost_Center_Cost_Center_Reference_ID'',
           get_typed_id_text_grant gcc_el [Self] ''Cost_Center_Reference_ID'' (Some []))] @
        [(''Included_in_Grant_Hierarchies_Descriptor'',
           get_attribute_grant iigh_el [Self] ''Descriptor'' (Some [])),
         (''Included_in_Grant_Hierarchies_WID'',
           get_typed_id_text_grant iigh_el [Self] ''WID'' (Some [])),
         (''Included_in_Grant_Hierarchies_Grant_Hierarchy_ID'',
           get_typed_id_text_grant iigh_el [Self] ''Grant_Hierarchy_ID'' (Some []))] @
        [(''Institution_Hierarchy_Node_Grants_Descriptor'',
           get_attribute_grant ihng_el [Self] ''Descriptor'' (Some [])),
         (''Institution_Hierarchy_Node_Grants_WID'',
           get_typed_id_text_grant ihng_el [Self] ''WID'' (Some [])),
         (''Institution_Hierarchy_Node_Grants_Grant_Hierarchy_ID'',
           get_typed_id_text_grant ihng_el [Self] ''Grant_Hierarchy_ID'' (Some []))] @
        [(''Unit_Descriptor'', get_attribute_grant unit_el [Self] ''Descriptor'' (Some [])),
         (''Unit_WID'', get_typed_id_text_grant unit_el [Self] ''WID'' (Some [])),
         (''Unit_Organization_Reference_ID'',
           get_typed_id_text_grant unit_el [Self] ''Organization_Reference_ID'' (Some [])),
         (''Unit_Custom_Organization_Reference_ID'',
           get_typed_id_text_grant unit_el [Self] ''Custom_Organization_Reference_ID'' (Some []))])"

text \<open>Lines 157-159, 161-164, 166-169 and 171-174: the assignments of the four branches.\<close>

definition fund_fields :: "element \<Rightarrow> pyval \<Rightarrow> (string \<times> pyval) list" where
  "fund_fields worktag_el descriptor =
     [(''Worktag_Fund_Descriptor'', descriptor),
      (''Worktag_Fund_WID'',
         get_typed_id_text_grant (Some worktag_el) [Self] ''WID'' (Some [])),
      (''Worktag_Fund_ID'',
         get_typed_id_text_grant (Some worktag_el) [Self] ''Fund_ID'' (Some []))]"

definition function_fields :: "element \<Rightarrow> pyval \<Rightarrow> (string \<times> pyval) list" where
  "function_fields worktag_el descriptor =
     [(''Worktag_Function_Descriptor'', descriptor),
      (''Worktag_Function_WID'',
         get_typed_id_text_grant (Some worktag_el) [Self] ''WID'' (Some [])),
      (''Worktag_Function_Organization_Reference_ID'',
         get_typed_id_text_grant (Some worktag_el) [Self] ''Organization_Reference_ID''
           (Some [])),
      (''Worktag_Function_Custom_Organization_Reference_ID'',
         get_typed_id_text_grant (Some worktag_el) [Self] ''Custom_Organization_Reference_ID''
           (Some []))]"

definition unit_fields :: "element \<Rightarrow> pyval \<Rightarrow> (string \<times> pyval) list" where
  "unit_fields worktag_el descriptor =
     [(''Worktag_Unit_Descriptor'', descriptor),
      (''Worktag_Unit_WID'',
         get_typed_id_text_grant (Some worktag_el) [Self] ''WID'' (Some [])),
      (''Worktag_Unit_Organization_Reference_ID'',
         get_typed_id_text_grant (Some worktag_el) [Self] ''Organization_Reference_ID''
           (Some [])),
      (''Worktag_Unit_Custom_Organization_Reference_ID'',
         get_typed_id_text_grant (Some worktag_el) [Self] ''Custom_Organization_Reference_ID''
           (Some []))]"

definition cost_center_fields :: "element \<Rightarrow> pyval \<Rightarrow> (string \<times> pyval) list" where
  "cost_center_fields worktag_el descriptor =
     [(''Worktag_Cost_Center_Descriptor'', descriptor),
      (''Worktag_Cost_Center_WID'',
         get_typed_id_text_grant (Some worktag_el) [Self] ''WID'' (Some [])),
      (''Worktag_Cost_Center_Organization_Reference_ID'',
         get_typed_id_text_grant (Some worktag_el) [Self] ''Organization_Reference_ID''
           (Some [])),
      (''Worktag_Cost_Center_Cost_Center_Reference_ID'',
         get_typed_id_text_grant (Some worktag_el) [Self] ''Cost_Center_Reference_ID''
           (Some []))]"

text \<open>Lines 154-174: the body of the loop over the \<open>wd:Worktags\<close> children.\<close>

definition worktag_step :: "element \<Rightarrow> pyval dict \<Rightarrow> pyval dict" where
  "worktag_step worktag_el row_data =
     (let descriptor = get_attribute_grant (Some worktag_el) [Self] ''Descriptor'' (Some [])
      in case descriptor of
           None \<Rightarrow> row_data
         | Some d \<Rightarrow>
             if d = [] then row_data
             else if startswith d ''Fund:'' then
               dict_assign row_data (fund_fields worktag_el descriptor)
             else if startswith d ''Function:'' then
               dict_assign row_data (function_fields worktag_el descriptor)
             else if startswith d ''Unit:'' then
               dict_assign row_data (unit_fields worktag_el descriptor)
             else if startswith d ''Cost Center:'' then
               dict_assign row_data (cost_center_fields worktag_el descriptor)
             else row_data)"

text \<open>Lines 153-174: the loop.\<close>

definition worktags_loop :: "element \<Rightarrow> pyval dict \<Rightarrow> pyval dict" where
  "worktags_loop report_entry row_data =
     fold worktag_step (el_findall report_entry [Child (wdg ''Worktags'')]) row_data"

text \<open>Lines 176-214: the assignments after the worktags.\<close>

definition fields_after_worktags :: "element \<Rightarrow> (string \<times> pyval) list" where
  "fields_after_worktags report_entry =
     (let gm_el = el_find report_entry [Child (wdg ''Grant_Manager'')];
          ga_el = el_find report_entry [Child (wdg ''Grant_Accountant'')];
          go_el = el_find report_entry [Child (wdg ''Grant_Owner'')];
          comp_el = el_find report_entry [Child (wdg ''Company'')];
          owner_el = el_find report_entry [Child (wdg ''Owner'')]
      in
        [(''Grant_Manager_Descriptor'', get_attribute_grant gm_el [Self] ''Descriptor'' (Some [])),
         (''Grant_Manager_WID'', get_typed_id_text_grant gm_el [Self] ''WID'' (Some [])),
         (''Grant_Manager_Employee_ID'',
           get_typed_id_text_grant gm_el [Self] ''Employee_ID'' (Some []))] @
        [(''Grant_Accountant_Descriptor'',
           get_attribute_grant ga_el [Self] ''Descriptor'' (Some [])),
         (''Grant_Accountant_WID'', get_typed_id_text_grant ga_el [Self] ''WID'' (Some [])),
         (''Grant_Accountant_Employee_ID'',
           get_typed_id_text_grant ga_el [Self] ''Employee_ID'' (Some []))] @
        [(''Grant_Owner_Descriptor'', get_attribute_grant go_el [Self] ''Descriptor'' (Some [])),
         (''Grant_Owner_WID'', get_typed_id_text_grant go_el [Self] ''WID'' (Some [])),
         (''Grant_Owner_Employee_ID'',
           get_typed_id_text_grant go_el [Self] ''Employee_ID'' (Some []))] @
        [(''Has_Program'',
           get_text_grant (Some report_entry) [Child (wdg ''Has_Program'')] (Some [])),
         (''Has_Grant_Cost_Center'',
           get_text_grant (Some report_entry) [Child (wdg ''Has_Grant_Cost_Center'')] (Some [])),
         (''Has_Program_Cost_Center'',
           get_text_grant (Some report_entry) [Child (wdg ''Has_Program_Cost_Center'')] (Some []))] @
        [(''Company_Descriptor'', get_attribute_grant comp_el [Self] ''Descriptor'' (Some [])),
         (''Company_WID'', get_typed_id_text_grant comp_el [Self] ''WID'' (Some [])),
         (''Company_Organization_Reference_ID'',
           get_typed_id_text_grant comp_el [Self] ''Organization_Reference_ID'' (Some [])),
         (''Company_Company_Reference_ID'',
           get_typed_id_text_grant comp_el [Self] ''Company_Reference_ID'' (Some []))] @
        [(''Owner_Descriptor'', get_attribute_grant owner_el [Self] ''Descriptor'' (Some [])),
         (''Owner_WID'', get_typed_id_text_grant owner_el [Self] ''WID'' (Some [])),
         (''Owner_Employee_ID'', get_typed_id_text_grant owner_el [Self] ''Employee_ID'' (Some []))] @
        [(''Inactive'', get_text_grant (Some report_entry) [Child (wdg ''Inactive'')] (Some [])),
         (''Fund_Code'',
           get_text_grant (Some report_entry) [Child (wdg ''Fund_group''), Child (wdg ''Fund_Code'')] (Some [])),
         (''Function_Code'',
           get_text_grant (Some report_entry) [Child (wdg ''Function_group''), Child (wdg ''Function_Code'')] (Some [])),
         (''Unit_Code'',
           get_text_grant (Some report_entry) [Child (wdg ''Unit_group''), Child (wdg ''Unit_Code'')] (Some []))])"

text \<open>Lines 108-216: the row of one report entry.\<close>

definition row_data_grant :: "string \<Rightarrow> element \<Rightarrow> pyval dict" where
  "row_data_grant file_modification_date report_entry =
     (let row_data = init_row_grant file_modification_date;
          row_data = dict_assign row_data (fields_before_worktags report_entry);
          row_data = worktags_loop report_entry row_data;
          row_data = dict_assign row_data (fields_after_worktags report_entry)
      in row_data)"

text \<open>
  \<open>parse_xml_data\<close> (lines 98-233): the rows, or \<open>None\<close> after writing a header-only
  output when the file is missing or unparsable.
\<close>

definition parse_xml_data_grant ::
    "fs \<Rightarrow> string \<Rightarrow> string \<Rightarrow> string \<Rightarrow> pyval dict list option \<times> fs" where
  "parse_xml_data_grant f xml_path csv_output_file file_modification_date =
     (case ET_parse f xml_path of
        Inr root \<Rightarrow>
          (Some (map (row_data_grant file_modification_date)
                   (el_findall root [Child (wdg ''Report_Entry'')])), f)
      | Inl FileNotFoundError \<Rightarrow> (None, write_rows f csv_output_file [headers_grant])
      | Inl ParseError \<Rightarrow> (None, write_rows f csv_output_file [headers_grant]))"

text \<open>The main block (lines 236-275).\<close>

definition main_grant :: "clock \<Rightarrow> string \<Rightarrow> string \<Rightarrow> fs \<Rightarrow> exn + fs" where
  "main_grant getmtime xml_input_file csv_output_file f =
     (if \<not> os_path_exists f xml_input_file
      then Inr (write_rows f csv_output_file [headers_grant])
      else
        (let mod_date = formatted_mod_date getmtime xml_input_file;
             (all_rows_data, f1) = parse_xml_data_grant f xml_input_file csv_output_file mod_date
         in case all_rows_data of
              None \<Rightarrow> Inr f1
            | Some rows \<Rightarrow>
                if rows \<noteq> []
                then write_dict_rows f1 csv_output_file headers_grant
                       (map (row_to_write headers_grant) rows)
                else if os_path_exists f1 xml_input_file
                then Inr (write_rows f1 csv_output_file [headers_grant])
                else Inr f1))"

section \<open>xml_parser_position_master.py\<close>

definition NAMESPACE_pm :: string where
  "NAMESPACE_pm = ''urn:com.workday.report/RPT-INTF-S111-(NSHE)_CSN-PositionMaster''"

definition wdm :: "string \<Rightarrow> string" where
  "wdm l = qname NAMESPACE_pm l"

text \<open>\<open>get_text\<close> (lines 35-40).\<close>

definition get_text_pm :: "element option \<Rightarrow> path \<Rightarrow> pyval \<Rightarrow> pyval" where
  "get_text_pm element p dflt =
     (case py_find element p of
        Inl AttributeError \<Rightarrow> dflt
      | Inr node \<Rightarrow>
          (case py_text node of
             Inl AttributeError \<Rightarrow> dflt
           | Inr t \<Rightarrow> t))"

text \<open>\<open>get_attribute\<close> (lines 42-47).\<close>

definition get_attribute_pm :: "element option \<Rightarrow> path \<Rightarrow> string \<Rightarrow> pyval \<Rightarrow> pyval" where
  "get_attribute_pm element p attribute_qname dflt =
     (case py_find element p of
        Inl AttributeError \<Rightarrow> dflt
      | Inr node \<Rightarrow>
          (case py_get node attribute_qname of
             Inl AttributeError \<Rightarrow> dflt
           | Inr a \<Rightarrow> a))"

text \<open>
  The loop of this script's \<open>get_typed_id_text\<close> (lines 56-60): it returns only at a
  child of the requested type whose text is not empty.
\<close>

fun typed_id_loop_pm :: "string \<Rightarrow> element list \<Rightarrow> string \<Rightarrow> pyval \<Rightarrow> pyval" where
  "typed_id_loop_pm type_key [] id_type_value dflt = dflt"
| "typed_id_loop_pm type_key (id_elem # rest) id_type_value dflt =
     (if el_get id_elem type_key = Some id_type_value
      then (case el_text id_elem of
              Some t \<Rightarrow>
                if t \<noteq> [] then Some t else typed_id_loop_pm type_key rest id_type_value dflt
            | None \<Rightarrow> typed_id_loop_pm type_key rest id_type_value dflt)
      else typed_id_loop_pm type_key rest id_type_value dflt)"

text \<open>\<open>get_typed_id_text\<close> (lines 49-62).\<close>

definition get_typed_id_text_pm :: "element option \<Rightarrow> path \<Rightarrow> string \<Rightarrow> pyval \<Rightarrow> pyval" where
  "get_typed_id_text_pm element path_to_parent_of_ids id_type_value dflt =
     (case py_find element path_to_parent_of_ids of
        Inl AttributeError \<Rightarrow> dflt
      | Inr parent_of_ids \<Rightarrow>
          (case parent_of_ids of
             Some parent \<Rightarrow>
               typed_id_loop_pm (qname NAMESPACE_pm ''type'')
                 (el_findall parent [Child (wdm ''ID'')]) id_type_value dflt
           | None \<Rightarrow> dflt))"

definition get_all_field_names :: "string list" where
  "get_all_field_names =
     [''Unit_Descriptor'', ''Unit_ID_WID'', ''Unit_ID_Organization_Reference_ID'',
      ''Unit_ID_Custom_Organization_Reference_ID'', ''PositionManagement_Position_ID'',
      ''PositionManagement_Job_Code'', ''PositionManagement_Position_Title'',
      ''PositionManagement_Open_Position_Title'', ''PositionManagement_FTE'',
      ''PositionManagement_CF_Worker_Comp_Step_Descriptor'',
      ''PositionManagement_CF_Worker_Comp_Step_ID_WID'',
      ''PositionManagement_CF_Worker_Comp_Step_ID_Compensation_Step_ID'',
      ''PositionManagement_CF_CompGradeRefID'',
      ''PositionManagement_Staffing_Status_Descriptor'',
      ''PositionManagement_Staffing_Status_ID_WID'',
      ''PositionManagement_Staffing_Status_ID_Staffing_Interface_Status_for_CRF_ID'',
      ''EmployeeID'', ''Cost_Center_Descriptor'', ''Cost_Center_ID_WID'',
      ''Cost_Center_ID_Organization_Reference_ID'',
      ''Cost_Center_ID_Cost_Center_Reference_ID'', ''CF_CostCenterID'',
      ''Worker_Is_Classified'', ''Worker_Last_Name'', ''Worker_First_Name'',
      ''Worker_Work_Email'', ''Worker_BusinessTitle'', ''Worker_CF_TenureStatus'',
      ''Worker_Worker_Compensation_Grade_Descriptor'',
      ''Worker_Worker_Compensation_Grade_ID_WID'',
      ''Worker_Worker_Compensation_Grade_ID_Compensation_Grade_ID'',
      ''Worker_CF_Worker_Comp_Grade_WID'',
      ''Worker_Worker_Compensation_Grade_Profile_Descriptor'',
      ''Worker_Worker_Compensation_Grade_Profile_ID_WID'',
      ''Worker_Worker_Compensation_Grade_Profile_ID_Compensation_Grade_Profile_ID'',
      ''Worker_CF_Worker_Comp_Grade_Prof_WID'', ''Worker_SeniorityDate'',
      ''Worker_OriginalHireDate'', ''Worker_ContinuousServiceDate'',
      ''Worker_Eff_Date_CurrentPosition'', ''Worker_LastPayIncreaseDate'',
      ''Worker_Position_Worker_Type_Descriptor'', ''Worker_Position_Worker_Type_ID_WID'',
      ''Worker_Position_Worker_Type_ID_Employee_Type_ID'', ''Worker_Medicare_Flag'',
      ''Eligibility_Rules_Descriptor'', ''Eligibility_Rules_ID_WID'',
      ''Default_Compensation_Grade_group_Compensation_Grade_Descriptor'',
      ''Default_Compensation_Grade_group_Compensation_Grade_ID_WID'',
      ''Default_Compensation_Grade_group_Compensation_Grade_ID_Compensation_Grade_ID'',
      ''Default_Compensation_Grade_group_WID'',
      ''Default_Compensation_Grade_group_Profiles_Serialized'',
      ''Default_Compensation_Grade_Profile_group_CF_CompGradeProf_WID'',
      ''PositionJob_Job_Family_Group_Descriptor'', ''PositionJob_Job_Family_Group_ID_WID'',
      ''PositionJob_Job_Family_Group_ID_Job_Family_ID'', ''PositionJob_CF_IsWorkerEmpty'',
      ''PositionJob_CF_Step'', ''PositionJob_CF_MeritStep'', ''PositionJob_CF_MeritDate'',
      ''PositionRestrictions_RetirementCodeOld'',
      ''PositionRestrictions_Health_Insurance_Yr1_Flag'',
      ''PositionRestrictions_Health_Insurance_Yr2_Flag'',
      ''PositionRestrictions_Partial_Flag'', ''PositionRestrictions_Retirement_Flag'',
      ''PositionRestrictions_Workers_Comp_Flag'',
      ''PositionRestrictions_Personnel_Assessment_Flag'',
      ''PositionRestrictions_Unemployment_Flag'', ''PositionRestrictions_GroupInsFlag'',
      ''PositionRestrictions_Medicare_Flag_OLD'', ''PositionRestrictions_FICA_Flag'',
      ''PositionRestrictions_AG_Tort_Flag'', ''PositionRestrictions_Employee_Bond_Flag'',
      ''PositionRestrictions_Merit_Increase_Flag'',
      ''Retirement_Savings_Election_group_RetirementCode_Descriptor'',
      ''Retirement_Savings_Election_group_RetirementCode_ID_WID'',
      ''Retirement_Savings_Election_group_RetirementCode_ID_Defined_Contribution_Plan_ID'',
      ''Retirement_Savings_Election_group_RetirementCode_ID_Benefit_Plan_ID'',
      ''Retirement_Savings_Election_group_Employer_Contribution_Percentage'',
      ''Retirement_Savings_Election_group_Elected'', ''Updated_Date'']"

text \<open>Lines 143-148.\<close>

definition pm_unit :: "element \<Rightarrow> pyval dict \<Rightarrow> pyval dict" where
  "pm_unit report_entry recd =
     (case el_find report_entry [Child (wdm ''Unit'')] of
        None \<Rightarrow> recd
      | Some unit_element \<Rightarrow>
          dict_assign recd
            [(''Unit_Descriptor'', el_get unit_element (wdm ''Descriptor'')),
             (''Unit_ID_WID'', get_typed_id_text_pm (Some unit_element) [Self] ''WID'' None),
             (''Unit_ID_Organization_Reference_ID'',
               get_typed_id_text_pm (Some unit_element) [Self] ''Organization_Reference_ID'' None),
             (''Unit_ID_Custom_Organization_Reference_ID'',
               get_typed_id_text_pm (Some unit_element) [Self] ''Custom_Organization_Reference_ID'' None)])"

text \<open>Lines 151-170.\<close>

definition pm_position_management :: "element \<Rightarrow> pyval dict \<Rightarrow> pyval dict" where
  "pm_position_management report_entry recd =
     (case el_find report_entry [Child (wdm ''PositionManagement'')] of
        None \<Rightarrow> recd
      | Some pm_element \<Rightarrow>
          (let recd = dict_assign recd
            [(''PositionManagement_Position_ID'',
               get_text_pm (Some pm_element) [Child (wdm ''Position_ID'')] None),
             (''PositionManagement_Job_Code'',
               get_text_pm (Some pm_element) [Child (wdm ''Job_Code'')] None),
             (''PositionManagement_Position_Title'',
               get_text_pm (Some pm_element) [Child (wdm ''Position_Title'')] None),
             (''PositionManagement_Open_Position_Title'',
               get_text_pm (Some pm_element) [Child (wdm ''Open_Position_Title'')] None),
             (''PositionManagement_FTE'', get_text_pm (Some pm_element) [Child (wdm ''FTE'')] None),
             (''PositionManagement_CF_CompGradeRefID'',
               get_text_pm (Some pm_element) [Child (wdm ''CF-CompGradeRefID'')] None)];
               recd =
                 (case el_find pm_element [Child (wdm ''CF-Worker_Comp_Step'')] of
                    None \<Rightarrow> recd
                  | Some cf_worker_comp_step \<Rightarrow>
                      dict_assign recd
                        [(''PositionManagement_CF_Worker_Comp_Step_Descriptor'',
                           el_get cf_worker_comp_step (wdm ''Descriptor'')),
                         (''PositionManagement_CF_Worker_Comp_Step_ID_WID'',
                           get_typed_id_text_pm (Some cf_worker_comp_step) [Self] ''WID'' None),
                         (''PositionManagement_CF_Worker_Comp_Step_ID_Compensation_Step_ID'',
                           get_typed_id_text_pm (Some cf_worker_comp_step) [Self] ''Compensation_Step_ID'' None)])
           in case el_find pm_element [Child (wdm ''Staffing_Status'')] of
                None \<Rightarrow> recd
              | Some staffing_status \<Rightarrow>
                  dict_assign recd
                    [(''PositionManagement_Staffing_Status_Descriptor'',
                       el_get staffing_status (wdm ''Descriptor'')),
                     (''PositionManagement_Staffing_Status_ID_WID'',
                       get_typed_id_text_pm (Some staffing_status) [Self] ''WID'' None),
                     (''PositionManagement_Staffing_Status_ID_Staffing_Interface_Status_for_CRF_ID'',
                       get_typed_id_text_pm (Some staffing_status) [Self] ''Staffing_Interface_Status_for_CRF_ID'' None)]))"

text \<open>Lines 176-181.\<close>

definition pm_cost_center :: "element \<Rightarrow> pyval dict \<Rightarrow> pyval dict" where
  "pm_cost_center report_entry recd =
     (case el_find report_entry [Child (wdm ''Cost_Center'')] of
        None \<Rightarrow> recd
      | Some cc_element \<Rightarrow>
          dict_assign recd
            [(''Cost_Center_Descriptor'', el_get cc_element (wdm ''Descriptor'')),
             (''Cost_Center_ID_WID'', get_typed_id_text_pm (Some cc_element) [Self] ''WID'' None),
             (''Cost_Center_ID_Organization_Reference_ID'',
               get_typed_id_text_pm (Some cc_element) [Self] ''Organization_Reference_ID'' None),
             (''Cost_Center_ID_Cost_Center_Reference_ID'',
               get_typed_id_text_pm (Some cc_element) [Self] ''Cost_Center_Reference_ID'' None)])"

text \<open>Lines 187-220.\<close>

definition pm_worker :: "element \<Rightarrow> pyval dict \<Rightarrow> pyval dict" where
  "pm_worker report_entry recd =
     (case el_find report_entry [Child (wdm ''Worker'')] of
        None \<Rightarrow> recd
      | Some worker_element \<Rightarrow>
          (let recd = dict_assign recd
            [(''Worker_Is_Classified'',
               get_text_pm (Some worker_element) [Child (wdm ''Is_Classified'')] None),
             (''Worker_Last_Name'',
               get_text_pm (Some worker_element) [Child (wdm ''Last_Name'')] None),
             (''Worker_First_Name'',
               get_text_pm (Some worker_element) [Child (wdm ''First_Name'')] None),
             (''Worker_Work_Email'',
               get_text_pm (Some worker_element) [Child (wdm ''Work_Email'')] None),
             (''Worker_BusinessTitle'',
               get_text_pm (Some worker_element) [Child (wdm ''BusinessTitle'')] None),
             (''Worker_CF_TenureStatus'',
               get_text_pm (Some worker_element) [Child (wdm ''CF-TenureStatus'')] None),
             (''Worker_SeniorityDate'',
               get_text_pm (Some worker_element) [Child (wdm ''SeniorityDate'')] None),
             (''Worker_OriginalHireDate'',
               get_text_pm (Some worker_element) [Child (wdm ''OriginalHireDate'')] None),
             (''Worker_ContinuousServiceDate'',
               get_text_pm (Some worker_element) [Child (wdm ''ContinuousServiceDate'')] None),
             (''Worker_Eff_Date_CurrentPosition'',
               get_text_pm (Some worker_element) [Child (wdm ''Eff_Date_CurrentPosition'')] None),
             (''Worker_LastPayIncreaseDate'',
               get_text_pm (Some worker_element) [Child (wdm ''LastPayIncreaseDate'')] None),
             (''Worker_Medicare_Flag'',
               get_text_pm (Some worker_element) [Child (wdm ''Medicare_Flag'')] None),
             (''Worker_CF_Worker_Comp_Grade_WID'',
               get_text_pm (Some worker_element) [Child (wdm ''CF_-_Worker_Comp_Grade_WID'')] None),
             (''Worker_CF_Worker_Comp_Grade_Prof_WID'',
               get_text_pm (Some worker_element) [Child (wdm ''CF_-_Worker_Comp_Grade_Prof_WID'')] None)];
               recd =
                 (case el_find worker_element [Child (wdm ''Worker_Compensation_Grade'')] of
                    None \<Rightarrow> recd
                  | Some wcg_element \<Rightarrow>
                      dict_assign recd
                        [(''Worker_Worker_Compensation_Grade_Descriptor'',
                           el_get wcg_element (wdm ''Descriptor'')),
                         (''Worker_Worker_Compensation_Grade_ID_WID'',
                           get_typed_id_text_pm (Some wcg_element) [Self] ''WID'' None),
                         (''Worker_Worker_Compensation_Grade_ID_Compensation_Grade_ID'',
                           get_typed_id_text_pm (Some wcg_element) [Self] ''Compensation_Grade_ID'' None)]);
               recd =
                 (case el_find worker_element
                         [Child (wdm ''Worker_Compensation_Grade_Profile'')] of
                    None \<Rightarrow> recd
                  | Some wcgp_element \<Rightarrow>
                      dict_assign recd
                        [(''Worker_Worker_Compensation_Grade_Profile_Descriptor'',
                           el_get wcgp_element (wdm ''Descriptor'')),
                         (''Worker_Worker_Compensation_Grade_Profile_ID_WID'',
                           get_typed_id_text_pm (Some wcgp_element) [Self] ''WID'' None),
                         (''Worker_Worker_Compensation_Grade_Profile_ID_Compensation_Grade_Profile_ID'',
                           get_typed_id_text_pm (Some wcgp_element) [Self] ''Compensation_Grade_Profile_ID'' None)])
           in case el_find worker_element [Child (wdm ''Position_Worker_Type'')] of
                None \<Rightarrow> recd
              | Some pwt_element \<Rightarrow>
                  dict_assign recd
                    [(''Worker_Position_Worker_Type_Descriptor'',
                       el_get pwt_element (wdm ''Descriptor'')),
                     (''Worker_Position_Worker_Type_ID_WID'',
                       get_typed_id_text_pm (Some pwt_element) [Self] ''WID'' None),
                     (''Worker_Position_Worker_Type_ID_Employee_Type_ID'',
                       get_typed_id_text_pm (Some pwt_element) [Self] ''Employee_Type_ID'' None)]))"

text \<open>Lines 223-226.\<close>

definition pm_eligibility_rules :: "element \<Rightarrow> pyval dict \<Rightarrow> pyval dict" where
  "pm_eligibility_rules report_entry recd =
     (case el_find report_entry [Child (wdm ''Eligibility_Rules'')] of
        None \<Rightarrow> recd
      | Some er_element \<Rightarrow>
          dict_assign recd
            [(''Eligibility_Rules_Descriptor'', el_get er_element (wdm ''Descriptor'')),
             (''Eligibility_Rules_ID_WID'',
               get_typed_id_text_pm (Some er_element) [Self] ''WID'' None)])"

text \<open>Lines 241-245: the dictionary of one compensation grade profile.\<close>

definition profile_data_of :: "element \<Rightarrow> pyval dict" where
  "profile_data_of profile_elem =
     [(''Descriptor'', el_get profile_elem (wdm ''Descriptor'')),
      (''ID_WID'', get_typed_id_text_pm (Some profile_elem) [Self] ''WID'' None),
      (''ID_Compensation_Grade_Profile_ID'',
         get_typed_id_text_pm (Some profile_elem) [Self] ''Compensation_Grade_Profile_ID'' None)]"

text \<open>Lines 229-248; \<open>json.dumps\<close> is a parameter.\<close>

definition pm_default_compensation_grade_group ::
    "(pyval dict list \<Rightarrow> string) \<Rightarrow> element \<Rightarrow> pyval dict \<Rightarrow> pyval dict" where
  "pm_default_compensation_grade_group json_dumps report_entry recd =
     (case el_find report_entry [Child (wdm ''Default_Compensation_Grade_group'')] of
        None \<Rightarrow> recd
      | Some dcg_group_element \<Rightarrow>
          (let recd = dict_assign recd
            [(''Default_Compensation_Grade_group_WID'',
               get_text_pm (Some dcg_group_element) [Child (wdm ''WID'')] None)];
               recd =
                 (case el_find dcg_group_element [Child (wdm ''Compensation_Grade'')] of
                    None \<Rightarrow> recd
                  | Some comp_grade_elem \<Rightarrow>
                      dict_assign recd
                        [(''Default_Compensation_Grade_group_Compensation_Grade_Descriptor'',
                           el_get comp_grade_elem (wdm ''Descriptor'')),
                         (''Default_Compensation_Grade_group_Compensation_Grade_ID_WID'',
                           get_typed_id_text_pm (Some comp_grade_elem) [Self] ''WID'' None),
                         (''Default_Compensation_Grade_group_Compensation_Grade_ID_Compensation_Grade_ID'',
                           get_typed_id_text_pm (Some comp_grade_elem) [Self] ''Compensation_Grade_ID'' None)]);
               profiles =
                 map profile_data_of
                   (el_findall dcg_group_element [Child (wdm ''Compensation_Grade_Profiles'')])
           in if profiles \<noteq> []
              then dict_set recd ''Default_Compensation_Grade_group_Profiles_Serialized''
                     (Some (json_dumps profiles))
              else recd))"

text \<open>Lines 251-253.\<close>

definition pm_default_compensation_grade_profile_group ::
    "element \<Rightarrow> pyval dict \<Rightarrow> pyval dict" where
  "pm_default_compensation_grade_profile_group report_entry recd =
     (case el_find report_entry [Child (wdm ''Default_Compensation_Grade_Profile_group'')] of
        None \<Rightarrow> recd
      | Some dcgp_group_element \<Rightarrow>
          dict_assign recd
            [(''Default_Compensation_Grade_Profile_group_CF_CompGradeProf_WID'',
               get_text_pm (Some dcgp_group_element) [Child (wdm ''CF-CompGradeProf-WID'')] None)])"

text \<open>Lines 256-267.\<close>

definition pm_position_job :: "element \<Rightarrow> pyval dict \<Rightarrow> pyval dict" where
  "pm_position_job report_entry recd =
     (case el_find report_entry [Child (wdm ''PositionJob'')] of
        None \<Rightarrow> recd
      | Some pj_element \<Rightarrow>
          (let recd = dict_assign recd
            [(''PositionJob_CF_IsWorkerEmpty'',
               get_text_pm (Some pj_element) [Child (wdm ''CF-IsWorkerEmpty'')] None),
             (''PositionJob_CF_Step'',
               get_text_pm (Some pj_element) [Child (wdm ''CF-Step'')] None),
             (''PositionJob_CF_MeritStep'',
               get_text_pm (Some pj_element) [Child (wdm ''CF-MeritStep'')] None),
             (''PositionJob_CF_MeritDate'',
               get_text_pm (Some pj_element) [Child (wdm ''CF-MeritDate'')] None)]
           in case el_find pj_element [Child (wdm ''Job_Family_Group'')] of
                None \<Rightarrow> recd
              | Some job_family_group \<Rightarrow>
                  dict_assign recd
                    [(''PositionJob_Job_Family_Group_Descriptor'',
                       el_get job_family_group (wdm ''Descriptor'')),
                     (''PositionJob_Job_Family_Group_ID_WID'',
                       get_typed_id_text_pm (Some job_family_group) [Self] ''WID'' None),
                     (''PositionJob_Job_Family_Group_ID_Job_Family_ID'',
                       get_typed_id_text_pm (Some job_family_group) [Self] ''Job_Family_ID'' None)]))"

text \<open>Lines 270-285.\<close>

definition pm_position_restrictions :: "element \<Rightarrow> pyval dict \<Rightarrow> pyval dict" where
  "pm_position_restrictions report_entry recd =
     (case el_find report_entry [Child (wdm ''PositionRestrictions'')] of
        None \<Rightarrow> recd
      | Some pr_element \<Rightarrow>
          dict_assign recd
            [(''PositionRestrictions_RetirementCodeOld'',
               get_text_pm (Some pr_element) [Child (wdm ''RetirementCodeOld'')] None),
             (''PositionRestrictions_Health_Insurance_Yr1_Flag'',
               get_text_pm (Some pr_element) [Child (wdm ''Health_Insurance_Yr1_Flag'')] None),
             (''PositionRestrictions_Health_Insurance_Yr2_Flag'',
               get_text_pm (Some pr_element) [Child (wdm ''Health_Insurance_Yr2_Flag'')] None),
             (''PositionRestrictions_Partial_Flag'',
               get_text_pm (Some pr_element) [Child (wdm ''Partial_Flag'')] None),
             (''PositionRestrictions_Retirement_Flag'',
               get_text_pm (Some pr_element) [Child (wdm ''Retirement_Flag'')] None),
             (''PositionRestrictions_Workers_Comp_Flag'',
               get_text_pm (Some pr_element) [Child (wdm ''Workers_Comp_Flag'')] None),
             (''PositionRestrictions_Personnel_Assessment_Flag'',
               get_text_pm (Some pr_element) [Child (wdm ''Personnel_Assessment_Flag'')] None),
             (''PositionRestrictions_Unemployment_Flag'',
               get_text_pm (Some pr_element) [Child (wdm ''Unemployment_Flag'')] None),
             (''PositionRestrictions_GroupInsFlag'',
               get_text_pm (Some pr_element) [Child (wdm ''GroupInsFlag'')] None),
             (''PositionRestrictions_Medicare_Flag_OLD'',
               get_text_pm (Some pr_element) [Child (wdm ''Medicare_Flag-OLD'')] None),
             (''PositionRestrictions_FICA_Flag'',
               get_text_pm (Some pr_element) [Child (wdm ''FICA_Flag'')] None),
             (''PositionRestrictions_AG_Tort_Flag'',
               get_text_pm (Some pr_element) [Child (wdm ''AG_Tort_Flag'')] None),
             (''PositionRestrictions_Employee_Bond_Flag'',
               get_text_pm (Some pr_element) [Child (wdm ''Employee_Bond_Flag'')] None),
             (''PositionRestrictions_Merit_Increase_Flag'',
               get_text_pm (Some pr_element) [Child (wdm ''Merit_Increase_Flag'')] None)])"

text \<open>Lines 288-298.\<close>

definition pm_retirement_savings_election_group :: "element \<Rightarrow> pyval dict \<Rightarrow> pyval dict" where
  "pm_retirement_savings_election_group report_entry recd =
     (case el_find report_entry [Child (wdm ''Retirement_Savings_Election_group'')] of
        None \<Rightarrow> recd
      | Some rse_group_element \<Rightarrow>
          (let recd = dict_assign recd
            [(''Retirement_Savings_Election_group_Employer_Contribution_Percentage'',
               get_text_pm (Some rse_group_element) [Child (wdm ''Employer_Contribution_Percentage'')] None),
             (''Retirement_Savings_Election_group_Elected'',
               get_text_pm (Some rse_group_element) [Child (wdm ''Elected'')] None)]
           in case el_find rse_group_element [Child (wdm ''RetirementCode'')] of
                None \<Rightarrow> recd
              | Some ret_code_elem \<Rightarrow>
                  dict_assign recd
                    [(''Retirement_Savings_Election_group_RetirementCode_Descriptor'',
                       el_get ret_code_elem (wdm ''Descriptor'')),
                     (''Retirement_Savings_Election_group_RetirementCode_ID_WID'',
                       get_typed_id_text_pm (Some ret_code_elem) [Self] ''WID'' None),
                     (''Retirement_Savings_Election_group_RetirementCode_ID_Defined_Contribution_Plan_ID'',
                       get_typed_id_text_pm (Some ret_code_elem) [Self] ''Defined_Contribution_Plan_ID'' None),
                     (''Retirement_Savings_Election_group_RetirementCode_ID_Benefit_Plan_ID'',
                       get_typed_id_text_pm (Some ret_code_elem) [Self] ''Benefit_Plan_ID'' None)]))"

text \<open>Lines 139-140: the fresh record of an entry.\<close>

definition init_record :: "string \<Rightarrow> pyval dict" where
  "init_record file_modification_date =
     (let recd = dict_assign [] (map (\<lambda>name. (name, None)) get_all_field_names)
      in dict_set recd ''Updated_Date'' (Some file_modification_date))"

text \<open>Lines 139-300: the record of one report entry.\<close>

definition record_of_entry :: "(pyval dict list \<Rightarrow> string) \<Rightarrow> string \<Rightarrow> element \<Rightarrow> pyval dict" where
  "record_of_entry json_dumps file_modification_date report_entry =
     (let recd = init_record file_modification_date;
          recd = pm_unit report_entry recd;
          recd = pm_position_management report_entry recd;
          recd = dict_assign recd
            [(''EmployeeID'', get_text_pm (Some report_entry) [Child (wdm ''EmployeeID'')] None)];
          recd = pm_cost_center report_entry recd;
          recd = dict_assign recd
            [(''CF_CostCenterID'',
               get_text_pm (Some report_entry) [Child (wdm ''CF-CostCenterID'')] None)];
          recd = pm_worker report_entry recd;
          recd = pm_eligibility_rules report_entry recd;
          recd = pm_default_compensation_grade_group json_dumps report_entry recd;
          recd = pm_default_compensation_grade_profile_group report_entry recd;
          recd = pm_position_job report_entry recd;
          recd = pm_position_restrictions report_entry recd;
          recd = pm_retirement_savings_election_group report_entry recd
      in recd)"

text \<open>\<open>parse_workday_xml\<close> (lines 126-309): \<open>None\<close> on a missing or unparsable file.\<close>

definition parse_workday_xml ::
    "(pyval dict list \<Rightarrow> string) \<Rightarrow> fs \<Rightarrow> string \<Rightarrow> string \<Rightarrow> pyval dict list option" where
  "parse_workday_xml json_dumps f xml_file_path file_modification_date =
     (case ET_parse f xml_file_path of
        Inr root \<Rightarrow>
          Some (map (record_of_entry json_dumps file_modification_date)
                  (el_findall root [Child (wdm ''Report_Entry'')]))
      | Inl ParseError \<Rightarrow> None
      | Inl FileNotFoundError \<Rightarrow> None)"

text \<open>\<open>write_to_csv\<close> (lines 311-325): nothing is written for an empty \<open>data\<close>.\<close>

definition write_to_csv_pm :: "pyval dict list \<Rightarrow> string \<Rightarrow> string list \<Rightarrow> fs \<Rightarrow> exn + fs" where
  "write_to_csv_pm data csv_file_path field_names f =
     (if data = [] then Inr f
      else write_dict_rows f csv_file_path field_names data)"

text \<open>
  The main block (lines 328-372). \<open>parsed_data\<close> is falsy when it is \<open>None\<close> and
  when it is the empty list.
\<close>

definition main_pm ::
    "(pyval dict list \<Rightarrow> string) \<Rightarrow> clock \<Rightarrow> string \<Rightarrow> string \<Rightarrow> fs \<Rightarrow> exn + fs" where
  "main_pm json_dumps getmtime xml_input_file csv_output_file f =
     (if \<not> os_path_exists f xml_input_file
      then Inr (write_rows f csv_output_file [get_all_field_names])
      else
        (let mod_date = formatted_mod_date getmtime xml_input_file;
             parsed_data = parse_workday_xml json_dumps f xml_input_file mod_date
         in case parsed_data of
              None \<Rightarrow> Inr f
            | Some data \<Rightarrow>
                if data \<noteq> []
                then write_to_csv_pm data csv_output_file get_all_field_names f
                else Inr f))"

section \<open>Reading a written table by column\<close>

text \<open>The field a data line holds under a header, for a table with the header line \<open>hs\<close>.\<close>

definition field_of :: "string list \<Rightarrow> string list \<Rightarrow> string \<Rightarrow> string option" where
  "field_of hs row h = map_of (zip hs row) h"

section \<open>Columns owned by the expansion, and example entries\<close>

text \<open>The columns lines 124-128 of the compensation script assign per plan assignment.\<close>

definition comp_keys :: "string list" where
  "comp_keys =
     [''Compensation_Element_Descriptor'', ''Compensation_Element_WID'',
      ''Compensation_Element_Compensation_Element_ID'', ''Annualized_Amount'']"

text \<open>
  Entries of the costing report: a worker block with two allocations (60 and 40 percent),
  and the worker block alone.
\<close>

definition costing_entry_two_allocations :: element where
  "costing_entry_two_allocations =
     Element (wdc ''Report_Entry'') [] None
       [Element (wdc ''Worker'') [] None
          [Element (wdc ''Position_ID'') [] (Some ''P100'') []],
        Element (wdc ''AllocationDetails'') [] None
          [Element (wdc ''Distribution_Percent'') [] (Some ''60'') []],
        Element (wdc ''AllocationDetails'') [] None
          [Element (wdc ''Distribution_Percent'') [] (Some ''40'') []]]"

definition costing_entry_no_allocation :: element where
  "costing_entry_no_allocation =
     Element (wdc ''Report_Entry'') [] None
       [Element (wdc ''Worker'') [] None
          [Element (wdc ''Position_ID'') [] (Some ''P100'') []]]"

text \<open>
  Entries of the compensation report: an empty entry, a worker group alone, and a worker
  group with two plan assignments.
\<close>

definition comp_entry_bare :: element where
  "comp_entry_bare = Element (wdp ''Report_Entry'') [] None []"

definition comp_entry_worker_only :: element where
  "comp_entry_worker_only =
     Element (wdp ''Report_Entry'') [] None
       [Element (wdp ''Worker_group'') [] None
          [Element (wdp ''Position_ID'') [] (Some ''P100'') []]]"

definition comp_entry_two_assignments :: element where
  "comp_entry_two_assignments =
     Element (wdp ''Report_Entry'') [] None
       [Element (wdp ''Worker_group'') [] None
          [Element (wdp ''Position_ID'') [] (Some ''P100'') []],
        Element (wdp ''Compensation_Plan_Assignments'') [] None
          [Element (wdp ''Annualized_Amount'') [] (Some ''1200'') []],
        Element (wdp ''Compensation_Plan_Assignments'') [] None
          [Element (wdp ''Annualized_Amount'') [] (Some ''300'') []]]"

text \<open>A costing document holding the entry with two allocations.\<close>

definition costing_document :: element where
  "costing_document = Element (wdc ''Report_Data'') [] None [costing_entry_two_allocations]"

section \<open>Reading a decimal numeral back\<close>

text \<open>The value of a digit character, and the number a string of digits denotes.\<close>

definition digit_value :: "char \<Rightarrow> nat" where
  "digit_value c = length (takeWhile (\<lambda>d. d \<noteq> c) ''0123456789'')"

definition decimal :: "string \<Rightarrow> nat" where
  "decimal s = foldl (\<lambda>n c. 10 * n + digit_value c) 0 s"

section \<open>Example containers of typed IDs\<close>


definition pm_duplicate_ids :: element where
  "pm_duplicate_ids =
     Element (wdm ''Unit'') [] None
       [Element (wdm ''ID'') [(wdm ''type'', ''WID'')] None [],
        Element (wdm ''ID'') [(wdm ''type'', ''WID'')] (Some ''second'') []]"

definition grant_unit_ids :: element where
  "grant_unit_ids =
     Element (wdg ''Unit'') [(wdg ''Descriptor'', ''Biology'')] None
       [Element (wdg ''ID'') [(wdg ''type'', ''WID'')] (Some ''abc123'') [],
        Element (wdg ''ID'') [(wdg ''type'', ''Organization_Reference_ID'')] (Some ''U10'') [],
        Element (wdg ''ID'') [(wdg ''type'', ''Organization_Reference_ID'')] (Some ''U11'') []]"


text \<open>
  The worktags of an entry whose descriptor begins with a prefix, in document order; the
  four prefixes the grant parser tests, in the order of its \<open>if\<close> chain, each with the
  assignments of its branch.
\<close>

definition has_descriptor_prefix :: "string \<Rightarrow> element \<Rightarrow> bool" where
  "has_descriptor_prefix prefix w =
     (case el_get w (wdg ''Descriptor'') of Some d \<Rightarrow> startswith d prefix | None \<Rightarrow> False)"


definition worktag_groups :: "(string \<times> (element \<Rightarrow> pyval \<Rightarrow> (string \<times> pyval) list)) list" where
  "worktag_groups =
     [(''Fund:'', fund_fields), (''Function:'', function_fields), (''Unit:'', unit_fields),
      (''Cost Center:'', cost_center_fields)]"


section \<open>Dictionaries\<close>

lemma map_of_dict_set: "map_of (dict_set d k v) = (map_of d)(k \<mapsto> v)"
  by (simp add: dict_set_def update_conv')

lemma dict_get_dict_set:
  "dict_get (dict_set d k v) k' dflt = (if k' = k then v else dict_get d k' dflt)"
  by (simp add: dict_get_def map_of_dict_set)

lemma keys_dict_set: "set (dict_keys (dict_set d k v)) = insert k (set (dict_keys d))"
  using dom_update [of k v d] by (simp add: dict_keys_def dict_set_def)

lemma dict_assign_Nil: "dict_assign d [] = d"
  by (simp add: dict_assign_def)

lemma dict_assign_Cons: "dict_assign d ((k, v) # kvs) = dict_assign (dict_set d k v) kvs"
  by (simp add: dict_assign_def)

lemma dict_assign_append: "dict_assign d (xs @ ys) = dict_assign (dict_assign d xs) ys"
  by (simp add: dict_assign_def)

lemma dict_get_dict_assign_other:
  "k \<notin> fst ` set kvs \<Longrightarrow> dict_get (dict_assign d kvs) k dflt = dict_get d k dflt"
proof (induction kvs arbitrary: d)
  case Nil
  then show ?case by (simp add: dict_assign_Nil)
next
  case (Cons a kvs)
  obtain k' v' where a: "a = (k', v')" by (cases a)
  from Cons.prems a have "k \<noteq> k'" and "k \<notin> fst ` set kvs" by auto
  with Cons.IH [of "dict_set d k' v'"] a show ?case
    by (simp add: dict_assign_Cons dict_get_dict_set)
qed

lemma keys_dict_assign:
  "set (dict_keys (dict_assign d kvs)) = set (dict_keys d) \<union> fst ` set kvs"
proof (induction kvs arbitrary: d)
  case Nil
  then show ?case by (simp add: dict_assign_Nil)
next
  case (Cons a kvs)
  obtain k' v' where a: "a = (k', v')" by (cases a)
  show ?case unfolding a dict_assign_Cons Cons.IH by (auto simp: keys_dict_set)
qed

lemma dict_get_dict_assign_const:
  "k \<in> set ks \<Longrightarrow> dict_get (dict_assign d (map (\<lambda>h. (h, c)) ks)) k dflt = c"
proof (induction ks arbitrary: d)
  case Nil
  then show ?case by simp
next
  case (Cons a ks)
  show ?case
  proof (cases "k \<in> set ks")
    case True
    with Cons.IH show ?thesis by (simp add: dict_assign_Cons)
  next
    case False
    with Cons.prems have "k = a" by simp
    moreover from False have "k \<notin> fst ` set (map (\<lambda>h. (h, c)) ks)" by (auto simp: image_iff)
    ultimately show ?thesis
      by (simp add: dict_assign_Cons dict_get_dict_assign_other dict_get_dict_set)
  qed
qed

lemma row_of_field:
  "h \<in> set headers_costing \<Longrightarrow>
     field_of headers_costing (row_of d) h = Some (dict_get d h [])"
  unfolding row_of_def field_of_def by (induction headers_costing) (auto simp: map_of_zip_map)

lemma length_entry_rows_costing:
  "length (entry_rows_costing d e) = max 1 (length (el_findall e [Child (wdc ''AllocationDetails'')]))"
  by (cases "el_findall e [Child (wdc ''AllocationDetails'')]") (simp_all add: entry_rows_costing_def Let_def)

lemma map_of_dict_assign: "map_of (dict_assign d kvs) = map_of d ++ map_of (rev kvs)"
proof (induction kvs arbitrary: d)
  case Nil
  then show ?case by (simp add: dict_assign_Nil)
next
  case (Cons a kvs)
  obtain k v where a: "a = (k, v)" by (cases a)
  have "map_of (dict_assign d (a # kvs)) = (map_of d)(k \<mapsto> v) ++ map_of (rev kvs)"
    unfolding a dict_assign_Cons Cons.IH map_of_dict_set ..
  also have "\<dots> = map_of d ++ map_of (rev (a # kvs))"
    by (simp add: a fun_eq_iff map_add_def split: option.splits)
  finally show ?case .
qed

lemma dict_get_dict_assign_same:
  assumes "k \<in> fst ` set kvs"
  shows "dict_get (dict_assign d kvs) k dflt = dict_get (dict_assign d' kvs) k dflt"
proof -
  from assms have "k \<in> dom (map_of (rev kvs))" by (simp add: dom_map_of_conv_image_fst)
  then obtain v where "map_of (rev kvs) k = Some v" by blast
  then show ?thesis by (simp add: dict_get_def map_of_dict_assign map_add_def)
qed

lemma dict_get_absent: "k \<notin> set (dict_keys d) \<Longrightarrow> dict_get d k dflt = dflt"
  by (simp add: dict_get_def dict_keys_def map_of_eq_None_iff [symmetric])

lemma dict_keys_Nil: "dict_keys [] = []"
  by (simp add: dict_keys_def)

lemma dict_get_Nil: "dict_get [] k dflt = dflt"
  by (simp add: dict_get_def)

lemma map_of_fill_missing:
  "map_of (fold (\<lambda>header r. if header \<notin> set (dict_keys r) then dict_set r header c else r) hs d) k =
     (case map_of d k of Some v \<Rightarrow> Some v | None \<Rightarrow> if k \<in> set hs then Some c else None)"
proof (induction hs arbitrary: d)
  case Nil
  then show ?case by (simp split: option.splits)
next
  case (Cons a hs)
  have n: "a \<notin> set (dict_keys d) \<longleftrightarrow> map_of d a = None"
    by (simp add: dict_keys_def map_of_eq_None_iff)
  show ?case
    by (auto simp: Cons.IH n map_of_dict_set split: option.splits)
qed

section \<open>The costing-allocations rows\<close>

lemma allocation_data_other:
  "h \<notin> set allocation_keys \<Longrightarrow> dict_get (allocation_data wd a) h dflt = dict_get wd h dflt"
  unfolding allocation_data_def
  by (rule dict_get_dict_assign_other) (simp add: allocation_keys_def)

lemma allocation_data_own:
  "h \<in> set allocation_keys \<Longrightarrow>
     dict_get (allocation_data wd a) h dflt = dict_get (allocation_data [] a) h dflt"
  unfolding allocation_data_def
  by (rule dict_get_dict_assign_same) (simp add: allocation_keys_def)

lemma no_allocation_data_other:
  "h \<notin> set allocation_keys \<Longrightarrow> dict_get (no_allocation_data wd) h dflt = dict_get wd h dflt"
  unfolding no_allocation_data_def
  by (rule dict_get_dict_assign_other) (auto simp: image_iff)

lemma no_allocation_data_own:
  "h \<in> set allocation_keys \<Longrightarrow> dict_get (no_allocation_data wd) h dflt = []"
  unfolding no_allocation_data_def by (rule dict_get_dict_assign_const)

lemma allocation_keys_headers: "set allocation_keys \<subseteq> set headers_costing"
  by (simp add: allocation_keys_def headers_costing_def)

lemma Updated_Date_costing:
  "''Updated_Date'' \<in> set headers_costing" "''Updated_Date'' \<notin> set allocation_keys"
  by (simp_all add: allocation_keys_def headers_costing_def)

lemma worker_data_Updated_Date: "dict_get (worker_data_of d e) ''Updated_Date'' dflt = d"
  by (simp add: worker_data_of_def Let_def dict_get_dict_set)

lemma entry_rows_costing_Updated_Date:
  "row \<in> set (entry_rows_costing d e) \<Longrightarrow> field_of headers_costing row ''Updated_Date'' = Some d"
  by (auto simp: entry_rows_costing_def Let_def row_of_field Updated_Date_costing
        allocation_data_other no_allocation_data_other worker_data_Updated_Date
      split: if_splits)

lemma rows_of_root_costing_Updated_Date:
  "row \<in> set (rows_of_root_costing d root) \<Longrightarrow>
     field_of headers_costing row ''Updated_Date'' = Some d"
  by (auto simp: rows_of_root_costing_def entry_rows_costing_Updated_Date)

lemma main_costing_parsed:
  assumes "f xml_input_file = Some (Xml root)"
  shows "main_costing getmtime xml_input_file csv_output_file f csv_output_file =
           Some (Csv (headers_costing #
                   rows_of_root_costing (formatted_mod_date getmtime xml_input_file) root))"
  using assms
  by (simp add: main_costing_def Let_def os_path_exists_def parse_funding_actuals_xml_def
        ET_parse_def write_to_csv_costing_def write_rows_def)

section \<open>The position-compensation rows\<close>

lemma comp_keys_headers: "set comp_keys \<subseteq> set headers_comp"
  by (simp add: comp_keys_def headers_comp_def)

lemma keys_worker_group_data:
  "k \<in> set comp_keys \<Longrightarrow> k \<notin> set (dict_keys (worker_group_data_of d e))"
  by (auto simp: worker_group_data_of_def Let_def keys_dict_set keys_dict_assign comp_keys_def
        dict_keys_Nil split: option.splits)

lemma comp_assignment_row_other:
  "h \<notin> set comp_keys \<Longrightarrow> dict_get (comp_assignment_row wgd a) h dflt = dict_get wgd h dflt"
  by (simp add: comp_assignment_row_def Let_def dict_get_dict_assign_other comp_keys_def
        split: option.splits)

lemma comp_assignment_row_own:
  assumes "h \<in> set comp_keys" and "\<forall>k\<in>set comp_keys. k \<notin> set (dict_keys wgd)"
  shows "dict_get (comp_assignment_row wgd a) h dflt = dict_get (comp_assignment_row [] a) h dflt"
proof (cases "el_find a [Child (wdp ''Compensation_Element'')]")
  case None
  show ?thesis
  proof (cases "h = ''Annualized_Amount''")
    case True
    then show ?thesis
      unfolding comp_assignment_row_def Let_def None option.case
      by (intro dict_get_dict_assign_same) simp
  next
    case False
    from assms have "dict_get wgd h dflt = dflt" by (simp add: dict_get_absent)
    with False show ?thesis
      by (simp add: comp_assignment_row_def Let_def None dict_get_dict_assign_other dict_get_Nil)
  qed
next
  case (Some c)
  from assms(1) show ?thesis
    unfolding comp_assignment_row_def Let_def Some option.case dict_assign_append [symmetric]
    by (intro dict_get_dict_assign_same) (auto simp: comp_keys_def)
qed

lemma empty_comp_row_own:
  assumes "h \<in> set comp_keys" and "\<forall>k\<in>set comp_keys. k \<notin> set (dict_keys wgd)"
  shows "dict_get (empty_comp_row wgd) h dflt = Some []"
proof -
  from assms have "map_of wgd h = None" by (simp add: dict_keys_def map_of_eq_None_iff)
  moreover from assms(1) comp_keys_headers have "h \<in> set headers_comp" by blast
  ultimately show ?thesis
    by (simp add: empty_comp_row_def dict_get_def map_of_fill_missing)
qed

lemma length_entry_rows_comp:
  "length (entry_rows_comp d e) =
     (if el_findall e [Child (wdp ''Compensation_Plan_Assignments'')] = []
      then (if el_find e [Child (wdp ''Worker_group'')] = None then 0 else 1)
      else length (el_findall e [Child (wdp ''Compensation_Plan_Assignments'')]))"
  by (simp add: entry_rows_comp_def Let_def)

section \<open>The date format\<close>

lemma digit_in: "digit n \<in> set ''0123456789''"
proof -
  have "n mod 10 < length ''0123456789''" by simp
  then show ?thesis unfolding digit_def by (rule nth_mem)
qed

lemma digit_value_digits:
  "list_all (\<lambda>k. digit_value (''0123456789'' ! k) = k) [0..<10]"
  by code_simp

lemma digit_value_digit: "digit_value (digit n) = n mod 10"
proof -
  have "n mod 10 \<in> set [0..<10]" by simp
  with digit_value_digits show ?thesis
    unfolding digit_def list_all_iff by blast
qed

lemma decimal_snoc: "decimal (s @ [c]) = 10 * decimal s + digit_value c"
  by (simp add: decimal_def)

lemma decimal_decimal_string: "decimal (decimal_string n) = n"
proof (induction n rule: decimal_string.induct)
  case (1 n)
  show ?case
  proof (cases "n < 10")
    case True
    then show ?thesis
      by (simp add: decimal_string.simps [of n] decimal_def digit_value_digit)
  next
    case False
    with 1 have "decimal (decimal_string (n div 10)) = n div 10" by simp
    with False show ?thesis
      by (simp add: decimal_string.simps [of n] decimal_snoc digit_value_digit)
  qed
qed

lemma decimal_pad2: "m < 100 \<Longrightarrow> decimal (pad2 m) = m"
proof -
  assume "m < 100"
  then have "m div 10 mod 10 = m div 10" by simp
  then show ?thesis
    by (simp add: pad2_def decimal_def digit_value_digit)
qed

lemma digits_decimal_string: "set (decimal_string n) \<subseteq> set ''0123456789''"
proof (induction n rule: decimal_string.induct)
  case (1 n)
  show ?case
  proof (cases "n < 10")
    case True
    then show ?thesis using digit_in [of n] by (simp add: decimal_string.simps [of n])
  next
    case False
    with 1 have "set (decimal_string (n div 10)) \<subseteq> set ''0123456789''" by simp
    with False digit_in [of n] show ?thesis by (simp add: decimal_string.simps [of n])
  qed
qed

lemma decimal_string_4:
  assumes "1000 \<le> n" and "n \<le> 9999"
  shows "decimal_string n =
           [digit (n div 10 div 10 div 10), digit (n div 10 div 10), digit (n div 10), digit n]"
proof -
  from assms have a: "\<not> n < 10" "\<not> n div 10 < 10" "\<not> n div 10 div 10 < 10"
    "n div 10 div 10 div 10 < 10" by simp_all
  have "decimal_string n = decimal_string (n div 10) @ [digit n]"
    using a(1) by (subst decimal_string.simps) simp
  also have "decimal_string (n div 10) = decimal_string (n div 10 div 10) @ [digit (n div 10)]"
    using a(2) by (subst decimal_string.simps) simp
  also have "decimal_string (n div 10 div 10) =
      decimal_string (n div 10 div 10 div 10) @ [digit (n div 10 div 10)]"
    using a(3) by (subst decimal_string.simps) simp
  also have "decimal_string (n div 10 div 10 div 10) = [digit (n div 10 div 10 div 10)]"
    using a(4) by (subst decimal_string.simps) simp
  finally show ?thesis by simp
qed

lemma strftime_Ymd_decode:
  assumes "month dt < 100" and "day dt < 100"
  shows "decimal (take (length (strftime_Ymd dt) - 6) (strftime_Ymd dt)) = year dt"
    and "strftime_Ymd dt ! (length (strftime_Ymd dt) - 6) = CHR ''-''"
    and "decimal (take 2 (drop (length (strftime_Ymd dt) - 5) (strftime_Ymd dt))) = month dt"
    and "strftime_Ymd dt ! (length (strftime_Ymd dt) - 3) = CHR ''-''"
    and "decimal (drop (length (strftime_Ymd dt) - 2) (strftime_Ymd dt)) = day dt"
proof -
  let ?y = "decimal_string (year dt)"
  have s: "strftime_Ymd dt = ?y @ ''-'' @ pad2 (month dt) @ ''-'' @ pad2 (day dt)"
    by (simp add: strftime_Ymd_def)
  have l: "length (strftime_Ymd dt) = length ?y + 6" by (simp add: s pad2_def)
  have p: "length (pad2 (month dt)) = 2" "length (pad2 (day dt)) = 2" by (simp_all add: pad2_def)
  show "decimal (take (length (strftime_Ymd dt) - 6) (strftime_Ymd dt)) = year dt"
    unfolding l by (simp add: s decimal_decimal_string)
  show "strftime_Ymd dt ! (length (strftime_Ymd dt) - 6) = CHR ''-''"
    unfolding l by (simp add: s nth_append)
  show "decimal (take 2 (drop (length (strftime_Ymd dt) - 5) (strftime_Ymd dt))) = month dt"
    unfolding l using assms(1) p by (simp add: s decimal_pad2)
  show "strftime_Ymd dt ! (length (strftime_Ymd dt) - 3) = CHR ''-''"
    unfolding l using p by (simp add: s nth_append)
  show "decimal (drop (length (strftime_Ymd dt) - 2) (strftime_Ymd dt)) = day dt"
    unfolding l using assms(2) p by (simp add: s decimal_pad2)
qed

lemma strftime_Ymd_shape:
  assumes "1000 \<le> year dt" and "year dt \<le> 9999"
  shows "length (strftime_Ymd dt) = 10"
    and "strftime_Ymd dt ! 4 = CHR ''-''" and "strftime_Ymd dt ! 7 = CHR ''-''"
    and "i \<in> {0, 1, 2, 3, 5, 6, 8, 9} \<Longrightarrow> strftime_Ymd dt ! i \<in> set ''0123456789''"
proof -
  have s: "strftime_Ymd dt =
      [digit (year dt div 10 div 10 div 10), digit (year dt div 10 div 10),
       digit (year dt div 10), digit (year dt), CHR ''-'',
       digit (month dt div 10), digit (month dt), CHR ''-'',
       digit (day dt div 10), digit (day dt)]"
    by (simp add: strftime_Ymd_def decimal_string_4 [OF assms] pad2_def)
  show "length (strftime_Ymd dt) = 10" by (simp add: s)
  show "strftime_Ymd dt ! 4 = CHR ''-''" by (simp add: s)
  show "strftime_Ymd dt ! 7 = CHR ''-''" by (simp add: s)
  define D where "D = set ''0123456789''"
  have d: "\<And>n. digit n \<in> D" unfolding D_def by (rule digit_in)
  assume "i \<in> {0, 1, 2, 3, 5, 6, 8, 9}"
  then have "strftime_Ymd dt ! i \<in> D"
    unfolding s using d by auto
  then show "strftime_Ymd dt ! i \<in> set ''0123456789''" unfolding D_def .
qed

section \<open>Lookup by path and the extraction helpers\<close>

lemma el_find_Self: "el_find e [Self] = Some e"
  by (simp add: el_find_def iterfind_def)


lemma case_filter_find:
  "(case filter P xs of [] \<Rightarrow> a | x # _ \<Rightarrow> g x) =
     (case find P xs of None \<Rightarrow> a | Some x \<Rightarrow> g x)"
  by (induction xs) simp_all

lemma el_find_Child: "el_find e [Child t] = find (\<lambda>c. el_tag c = t) (el_children e)"
  using case_filter_find [of None Some "\<lambda>c. el_tag c = t" "el_children e"]
  by (simp add: el_find_def iterfind_def option.case_eq_if)










lemma helpers_None:
  "get_text_comp None p dflt = dflt" "get_attribute_comp None p a dflt = dflt"
  "get_typed_id_text_comp None p v dflt = dflt"
  "get_text_grant None p dflt = dflt" "get_attribute_grant None p a dflt = dflt"
  "get_typed_id_text_grant None p v dflt = dflt"
  "get_text_pm None p dflt = dflt" "get_attribute_pm None p a dflt = dflt"
  "get_typed_id_text_pm None p v dflt = dflt"
  by (simp_all add: get_text_comp_def get_attribute_comp_def get_typed_id_text_comp_def
        get_text_grant_def get_attribute_grant_def get_typed_id_text_grant_def
        get_text_pm_def get_attribute_pm_def get_typed_id_text_pm_def py_find_def)

lemma helpers_target_absent:
  assumes "el_find e p = None"
  shows "get_text_comp (Some e) p dflt = dflt" "get_attribute_comp (Some e) p a dflt = dflt"
    "get_typed_id_text_comp (Some e) p v dflt = dflt"
    "get_text_grant (Some e) p dflt = dflt" "get_attribute_grant (Some e) p a dflt = dflt"
    "get_typed_id_text_grant (Some e) p v dflt = dflt"
    "get_text_pm (Some e) p dflt = dflt" "get_attribute_pm (Some e) p a dflt = dflt"
    "get_typed_id_text_pm (Some e) p v dflt = dflt"
proof -
  from assms have "p \<noteq> [Self]" by (auto simp: el_find_Self)
  with assms show "get_text_comp (Some e) p dflt = dflt"
    "get_attribute_comp (Some e) p a dflt = dflt"
    "get_typed_id_text_comp (Some e) p v dflt = dflt"
    "get_text_grant (Some e) p dflt = dflt" "get_attribute_grant (Some e) p a dflt = dflt"
    "get_typed_id_text_grant (Some e) p v dflt = dflt"
    "get_text_pm (Some e) p dflt = dflt" "get_attribute_pm (Some e) p a dflt = dflt"
    "get_typed_id_text_pm (Some e) p v dflt = dflt"
    by (simp_all add: get_text_comp_def get_attribute_comp_def get_typed_id_text_comp_def
        get_text_grant_def get_attribute_grant_def get_typed_id_text_grant_def
        get_text_pm_def get_attribute_pm_def get_typed_id_text_pm_def py_find_def py_text_def
        py_get_def)
qed

lemma get_attribute_absent:
  assumes "el_find e p = Some target"
  shows "el_get target (qname NAMESPACE_comp a) = None \<Longrightarrow>
           get_attribute_comp (Some e) p a dflt = dflt"
    "el_get target (qname NAMESPACE_grant a) = None \<Longrightarrow>
           get_attribute_grant (Some e) p a dflt = dflt"
proof -
  from assms have t: "p = [Self] \<Longrightarrow> target = e" by (simp add: el_find_Self)
  show "el_get target (qname NAMESPACE_comp a) = None \<Longrightarrow>
           get_attribute_comp (Some e) p a dflt = dflt"
    using assms t by (auto simp: get_attribute_comp_def py_find_def)
  show "el_get target (qname NAMESPACE_grant a) = None \<Longrightarrow>
           get_attribute_grant (Some e) p a dflt = dflt"
    using assms t by (auto simp: get_attribute_grant_def py_find_def)
qed

section \<open>The worktags loop of the grant parser\<close>








lemma startswith_clash:
  assumes "startswith d p" and "startswith d q" and "length p \<le> length q"
  shows "take (length p) q = p"
proof -
  have "take (length p) q = take (length p) (take (length q) d)"
    using assms(2) by (simp only: startswith_def)
  also have "\<dots> = take (length p) d" using assms(3) by (simp add: min_def)
  also have "\<dots> = p" using assms(1) by (simp only: startswith_def)
  finally show ?thesis .
qed


lemma prefixes_exclusive:
  "\<not> (startswith d ''Fund:'' \<and> startswith d ''Function:'')"
  "\<not> (startswith d ''Fund:'' \<and> startswith d ''Unit:'')"
  "\<not> (startswith d ''Fund:'' \<and> startswith d ''Cost Center:'')"
  "\<not> (startswith d ''Unit:'' \<and> startswith d ''Function:'')"
  "\<not> (startswith d ''Function:'' \<and> startswith d ''Cost Center:'')"
  "\<not> (startswith d ''Unit:'' \<and> startswith d ''Cost Center:'')"
  using startswith_clash [of d "''Fund:''" "''Function:''"]
    startswith_clash [of d "''Fund:''" "''Unit:''"]
    startswith_clash [of d "''Fund:''" "''Cost Center:''"]
    startswith_clash [of d "''Unit:''" "''Function:''"]
    startswith_clash [of d "''Function:''" "''Cost Center:''"]
    startswith_clash [of d "''Unit:''" "''Cost Center:''"]
  by auto




lemma has_prefix_unique:
  assumes "(p, F) \<in> set worktag_groups" and "(q, G) \<in> set worktag_groups"
    and "has_descriptor_prefix p w" and "has_descriptor_prefix q w"
  shows "p = q \<and> F = G"
proof -
  from assms(3) obtain d where d: "el_get w (wdg ''Descriptor'') = Some d"
    by (auto simp: has_descriptor_prefix_def split: option.splits)
  with assms(3,4) have "startswith d p" "startswith d q"
    by (simp_all add: has_descriptor_prefix_def)
  with assms(1,2) prefixes_exclusive [of d] show ?thesis
    by (auto simp: worktag_groups_def)
qed












section \<open>Rows per report entry\<close>

text \<open>
  C1, as the code has it. In the costing-allocations parser an entry yields
  max(1, number of AllocationDetails children) rows, and with no such child the one row
  has every allocation column empty. In the position-compensation parser an entry with
  N >= 1 Compensation_Plan_Assignments children yields N rows; with none it yields one
  row, its compensation columns empty, when it has a Worker_group child, and no row
  otherwise.
\<close>

theorem C1_rows_per_entry:
  "length (entry_rows_costing d e) =
     max 1 (length (el_findall e [Child (wdc ''AllocationDetails'')])) \<and>
   (el_findall e [Child (wdc ''AllocationDetails'')] = [] \<longrightarrow>
     (\<forall>row\<in>set (entry_rows_costing d e). \<forall>h\<in>set allocation_keys.
        field_of headers_costing row h = Some [])) \<and>
   length (entry_rows_comp d e') =
     (if el_findall e' [Child (wdp ''Compensation_Plan_Assignments'')] = []
      then (if el_find e' [Child (wdp ''Worker_group'')] = None then 0 else 1)
      else length (el_findall e' [Child (wdp ''Compensation_Plan_Assignments'')])) \<and>
   (el_findall e' [Child (wdp ''Compensation_Plan_Assignments'')] = [] \<longrightarrow>
     (\<forall>row\<in>set (entry_rows_comp d e'). \<forall>h\<in>set comp_keys.
        dict_get row h dflt = Some []))"
proof (intro conjI)
  show "length (entry_rows_costing d e) =
     max 1 (length (el_findall e [Child (wdc ''AllocationDetails'')]))"
    by (rule length_entry_rows_costing)
  show "el_findall e [Child (wdc ''AllocationDetails'')] = [] \<longrightarrow>
     (\<forall>row\<in>set (entry_rows_costing d e). \<forall>h\<in>set allocation_keys.
        field_of headers_costing row h = Some [])"
    using allocation_keys_headers
    by (auto simp: entry_rows_costing_def Let_def row_of_field no_allocation_data_own)
  show "length (entry_rows_comp d e') =
     (if el_findall e' [Child (wdp ''Compensation_Plan_Assignments'')] = []
      then (if el_find e' [Child (wdp ''Worker_group'')] = None then 0 else 1)
      else length (el_findall e' [Child (wdp ''Compensation_Plan_Assignments'')]))"
    by (rule length_entry_rows_comp)
  show "el_findall e' [Child (wdp ''Compensation_Plan_Assignments'')] = [] \<longrightarrow>
     (\<forall>row\<in>set (entry_rows_comp d e'). \<forall>h\<in>set comp_keys.
        dict_get row h dflt = Some [])"
    by (auto simp: entry_rows_comp_def Let_def empty_comp_row_own keys_worker_group_data
          split: if_splits)
qed

text \<open>The theorem at a costing entry and a compensation entry without expansion children.\<close>

theorem C1_rows_per_entry_witness:
  "el_findall costing_entry_no_allocation [Child (wdc ''AllocationDetails'')] = [] \<and>
   length (entry_rows_costing ''2024-03-05'' costing_entry_no_allocation) = 1 \<and>
   field_of headers_costing (hd (entry_rows_costing ''2024-03-05'' costing_entry_no_allocation))
     ''Distribution_Percent'' = Some [] \<and>
   el_findall comp_entry_worker_only [Child (wdp ''Compensation_Plan_Assignments'')] = [] \<and>
   length (entry_rows_comp ''2024-03-05'' comp_entry_worker_only) = 1 \<and>
   dict_get (hd (entry_rows_comp ''2024-03-05'' comp_entry_worker_only))
     ''Annualized_Amount'' None = Some []"
proof -
  let ?a = costing_entry_no_allocation
  let ?b = comp_entry_worker_only
  let ?d = "''2024-03-05''"
  note inst = C1_rows_per_entry [of ?d ?a ?b None]
  have a: "el_findall ?a [Child (wdc ''AllocationDetails'')] = []" by code_simp
  have b: "el_findall ?b [Child (wdp ''Compensation_Plan_Assignments'')] = []" by code_simp
  have w: "el_find ?b [Child (wdp ''Worker_group'')] \<noteq> None" by code_simp
  from inst a have l: "length (entry_rows_costing ?d ?a) = 1" by simp
  then have m: "hd (entry_rows_costing ?d ?a) \<in> set (entry_rows_costing ?d ?a)"
    by (cases "entry_rows_costing ?d ?a") simp_all
  have k: "''Distribution_Percent'' \<in> set allocation_keys" by (simp add: allocation_keys_def)
  from inst a m k have c:
    "field_of headers_costing (hd (entry_rows_costing ?d ?a)) ''Distribution_Percent'' = Some []"
    by blast
  from inst b w have l': "length (entry_rows_comp ?d ?b) = 1" by simp
  then have m': "hd (entry_rows_comp ?d ?b) \<in> set (entry_rows_comp ?d ?b)"
    by (cases "entry_rows_comp ?d ?b") simp_all
  have k': "''Annualized_Amount'' \<in> set comp_keys" by (simp add: comp_keys_def)
  from inst b m' k' have c':
    "dict_get (hd (entry_rows_comp ?d ?b)) ''Annualized_Amount'' None = Some []"
    by blast
  from a l c b l' c' show ?thesis by blast
qed

text \<open>
  C1 as stated fails: a compensation entry with neither a worker group nor a plan
  assignment yields no row, not max(1, 0) = 1.
\<close>

theorem C1_zero_rows_counterexample:
  "length (entry_rows_comp ''2024-03-05'' comp_entry_bare) \<noteq>
     max 1 (length (el_findall comp_entry_bare [Child (wdp ''Compensation_Plan_Assignments'')]))"
proof -
  have "entry_rows_comp ''2024-03-05'' comp_entry_bare = []" by code_simp
  then show ?thesis by simp
qed

section \<open>Typed-ID extraction\<close>




text \<open>
  In the position-master script a first match without text does not end the scan: the
  text of a later child of the same type is returned.
\<close>

lemma pm_typed_id_skips_empty_match:
  "find (\<lambda>c. el_tag c = wdm ''ID'' \<and> el_get c (wdm ''type'') = Some ''WID'')
     (el_children pm_duplicate_ids) =
     Some (Element (wdm ''ID'') [(wdm ''type'', ''WID'')] None []) \<and>
   get_typed_id_text_pm (Some pm_duplicate_ids) [Self] ''WID'' None = Some ''second''"
proof -
  have "find (\<lambda>c. el_tag c = wdm ''ID'' \<and> el_get c (wdm ''type'') = Some ''WID'')
     (el_children pm_duplicate_ids) =
     Some (Element (wdm ''ID'') [(wdm ''type'', ''WID'')] None [])" by code_simp
  moreover have "get_typed_id_text_pm (Some pm_duplicate_ids) [Self] ''WID'' None = Some ''second''"
    by code_simp
  ultimately show ?thesis by simp
qed

section \<open>The extraction helpers on sparse documents\<close>

text \<open>
  C5. Called with a null element, \<open>get_text\<close>, \<open>get_attribute\<close> and
  \<open>get_typed_id_text\<close> of the compensation and the grant script return the default the
  caller supplied: the attribute access on \<open>None\<close> raises \<open>AttributeError\<close> inside the
  helper, which catches it (or the helper returns before it). They return the default
  as well when the path leads to no element, and \<open>get_attribute\<close> when the element it
  leads to lacks the attribute. The helpers are total: no exception leaves them.
\<close>

theorem C5_helpers_return_default:
  "py_find None p = Inl AttributeError \<and> py_text None = Inl AttributeError \<and>
   get_text_comp None p dflt = dflt \<and> get_attribute_comp None p a dflt = dflt \<and>
   get_typed_id_text_comp None p v dflt = dflt \<and>
   get_text_grant None p dflt = dflt \<and> get_attribute_grant None p a dflt = dflt \<and>
   get_typed_id_text_grant None p v dflt = dflt \<and>
   (el_find e p = None \<longrightarrow>
      get_text_comp (Some e) p dflt = dflt \<and> get_attribute_comp (Some e) p a dflt = dflt \<and>
      get_typed_id_text_comp (Some e) p v dflt = dflt \<and>
      get_text_grant (Some e) p dflt = dflt \<and> get_attribute_grant (Some e) p a dflt = dflt \<and>
      get_typed_id_text_grant (Some e) p v dflt = dflt) \<and>
   (\<forall>target. el_find e p = Some target \<longrightarrow>
      (el_get target (qname NAMESPACE_comp a) = None \<longrightarrow>
         get_attribute_comp (Some e) p a dflt = dflt) \<and>
      (el_get target (qname NAMESPACE_grant a) = None \<longrightarrow>
         get_attribute_grant (Some e) p a dflt = dflt))"
proof (intro conjI impI allI)
  show "py_find None p = Inl AttributeError" "py_text None = Inl AttributeError"
    by (simp_all add: py_find_def py_text_def)
  show "get_text_comp None p dflt = dflt" "get_attribute_comp None p a dflt = dflt"
    "get_typed_id_text_comp None p v dflt = dflt"
    "get_text_grant None p dflt = dflt" "get_attribute_grant None p a dflt = dflt"
    "get_typed_id_text_grant None p v dflt = dflt"
    by (rule helpers_None)+
next
  assume n: "el_find e p = None"
  show "get_text_comp (Some e) p dflt = dflt" "get_attribute_comp (Some e) p a dflt = dflt"
    "get_typed_id_text_comp (Some e) p v dflt = dflt"
    "get_text_grant (Some e) p dflt = dflt" "get_attribute_grant (Some e) p a dflt = dflt"
    "get_typed_id_text_grant (Some e) p v dflt = dflt"
    by (rule helpers_target_absent [OF n])+
next
  fix target
  assume "el_find e p = Some target" and "el_get target (qname NAMESPACE_comp a) = None"
  then show "get_attribute_comp (Some e) p a dflt = dflt" by (rule get_attribute_absent)
next
  fix target
  assume "el_find e p = Some target" and "el_get target (qname NAMESPACE_grant a) = None"
  then show "get_attribute_grant (Some e) p a dflt = dflt" by (rule get_attribute_absent)
qed

text \<open>The theorem at a Unit element without a Code child and without the attribute asked for.\<close>

theorem C5_helpers_return_default_witness:
  "el_find grant_unit_ids [Child (wdg ''Code'')] = None \<and>
   get_text_grant (Some grant_unit_ids) [Child (wdg ''Code'')] (Some ''dflt'') = Some ''dflt'' \<and>
   get_text_comp (Some grant_unit_ids) [Child (wdg ''Code'')] (Some ''dflt'') = Some ''dflt'' \<and>
   get_typed_id_text_grant (Some grant_unit_ids) [Child (wdg ''Code'')] ''WID'' (Some ''dflt'') =
     Some ''dflt'' \<and>
   el_find grant_unit_ids [Self] = Some grant_unit_ids \<and>
   el_get grant_unit_ids (qname NAMESPACE_grant ''Missing'') = None \<and>
   get_attribute_grant (Some grant_unit_ids) [Self] ''Missing'' (Some ''dflt'') = Some ''dflt'' \<and>
   get_attribute_comp (Some grant_unit_ids) [Self] ''Missing'' (Some ''dflt'') = Some ''dflt''"
proof -
  let ?e = grant_unit_ids
  have n: "el_find ?e [Child (wdg ''Code'')] = None" by code_simp
  have s: "el_find ?e [Self] = Some ?e" by code_simp
  have g: "el_get ?e (qname NAMESPACE_grant ''Missing'') = None"
    "el_get ?e (qname NAMESPACE_comp ''Missing'') = None" by code_simp+
  note i1 = C5_helpers_return_default
    [of "[Child (wdg ''Code'')]" "Some ''dflt''" "''Missing''" "''WID''" ?e]
  note i2 = C5_helpers_return_default [of "[Self]" "Some ''dflt''" "''Missing''" "''WID''" ?e]
  from i1 n have
    "get_text_grant (Some ?e) [Child (wdg ''Code'')] (Some ''dflt'') = Some ''dflt''"
    "get_text_comp (Some ?e) [Child (wdg ''Code'')] (Some ''dflt'') = Some ''dflt''"
    "get_typed_id_text_grant (Some ?e) [Child (wdg ''Code'')] ''WID'' (Some ''dflt'') =
       Some ''dflt''"
    by blast+
  moreover from i2 s g have
    "get_attribute_grant (Some ?e) [Self] ''Missing'' (Some ''dflt'') = Some ''dflt''"
    "get_attribute_comp (Some ?e) [Self] ''Missing'' (Some ''dflt'') = Some ''dflt''"
    by blast+
  ultimately show ?thesis using n s g by blast
qed

section \<open>The provenance date\<close>

text \<open>
  C6. The driver computes the provenance date once per input file: the empty string when
  the modification time cannot be read, else the date of the modification time in the
  format year-month-day. The string read back gives that year, month and day (the year
  before the first hyphen, then two digits each), and for a four-digit year it is
  YYYY-MM-DD: ten characters, digits around hyphens at positions 4 and 7. Every row
  parsed from the file holds that one value in its Updated_Date column, and these rows
  are what the driver writes below the header.
\<close>

theorem C6_provenance_date:
  "(\<forall>ex. getmtime xml_input_file = Inl ex \<longrightarrow> formatted_mod_date getmtime xml_input_file = []) \<and>
   (\<forall>dt. getmtime xml_input_file = Inr dt \<longrightarrow>
      formatted_mod_date getmtime xml_input_file = strftime_Ymd dt) \<and>
   (\<forall>dt. month dt < 100 \<and> day dt < 100 \<longrightarrow>
      decimal (take (length (strftime_Ymd dt) - 6) (strftime_Ymd dt)) = year dt \<and>
      strftime_Ymd dt ! (length (strftime_Ymd dt) - 6) = CHR ''-'' \<and>
      decimal (take 2 (drop (length (strftime_Ymd dt) - 5) (strftime_Ymd dt))) = month dt \<and>
      strftime_Ymd dt ! (length (strftime_Ymd dt) - 3) = CHR ''-'' \<and>
      decimal (drop (length (strftime_Ymd dt) - 2) (strftime_Ymd dt)) = day dt) \<and>
   (\<forall>dt. 1000 \<le> year dt \<and> year dt \<le> 9999 \<longrightarrow>
      length (strftime_Ymd dt) = 10 \<and> strftime_Ymd dt ! 4 = CHR ''-'' \<and>
      strftime_Ymd dt ! 7 = CHR ''-'' \<and>
      (\<forall>i\<in>{0, 1, 2, 3, 5, 6, 8, 9}. strftime_Ymd dt ! i \<in> set ''0123456789'')) \<and>
   (\<forall>root. f xml_input_file = Some (Xml root) \<longrightarrow>
      main_costing getmtime xml_input_file csv_output_file f csv_output_file =
        Some (Csv (headers_costing #
                rows_of_root_costing (formatted_mod_date getmtime xml_input_file) root)) \<and>
      (\<forall>row\<in>set (rows_of_root_costing (formatted_mod_date getmtime xml_input_file) root).
         field_of headers_costing row ''Updated_Date'' =
           Some (formatted_mod_date getmtime xml_input_file)))"
proof (intro conjI allI impI ballI)
  fix ex assume "getmtime xml_input_file = Inl ex"
  then show "formatted_mod_date getmtime xml_input_file = []"
    by (simp add: formatted_mod_date_def)
next
  fix dt assume "getmtime xml_input_file = Inr dt"
  then show "formatted_mod_date getmtime xml_input_file = strftime_Ymd dt"
    by (simp add: formatted_mod_date_def)
next
  fix dt :: datetime assume b: "month dt < 100 \<and> day dt < 100"
  then have m: "month dt < 100" and d: "day dt < 100" by simp_all
  show "decimal (take (length (strftime_Ymd dt) - 6) (strftime_Ymd dt)) = year dt"
    by (rule strftime_Ymd_decode [OF m d])
  show "strftime_Ymd dt ! (length (strftime_Ymd dt) - 6) = CHR ''-''"
    by (rule strftime_Ymd_decode [OF m d])
  show "decimal (take 2 (drop (length (strftime_Ymd dt) - 5) (strftime_Ymd dt))) = month dt"
    by (rule strftime_Ymd_decode [OF m d])
  show "strftime_Ymd dt ! (length (strftime_Ymd dt) - 3) = CHR ''-''"
    by (rule strftime_Ymd_decode [OF m d])
  show "decimal (drop (length (strftime_Ymd dt) - 2) (strftime_Ymd dt)) = day dt"
    by (rule strftime_Ymd_decode [OF m d])
next
  fix dt :: datetime assume b: "1000 \<le> year dt \<and> year dt \<le> 9999"
  then have lo: "1000 \<le> year dt" and hi: "year dt \<le> 9999" by simp_all
  show "length (strftime_Ymd dt) = 10" by (rule strftime_Ymd_shape [OF lo hi])
  show "strftime_Ymd dt ! 4 = CHR ''-''" by (rule strftime_Ymd_shape [OF lo hi])
  show "strftime_Ymd dt ! 7 = CHR ''-''" by (rule strftime_Ymd_shape [OF lo hi])
  fix i assume "i \<in> {0, 1, 2, 3, 5, 6, 8, 9::nat}"
  then show "strftime_Ymd dt ! i \<in> set ''0123456789''"
    by (rule strftime_Ymd_shape [OF lo hi])
next
  fix root assume "f xml_input_file = Some (Xml root)"
  then show "main_costing getmtime xml_input_file csv_output_file f csv_output_file =
        Some (Csv (headers_costing #
                rows_of_root_costing (formatted_mod_date getmtime xml_input_file) root))"
    by (rule main_costing_parsed)
next
  fix root row
  assume "row \<in> set (rows_of_root_costing (formatted_mod_date getmtime xml_input_file) root)"
  then show "field_of headers_costing row ''Updated_Date'' =
           Some (formatted_mod_date getmtime xml_input_file)"
    by (rule rows_of_root_costing_Updated_Date)
qed

text \<open>
  The theorem at a clock that fails, and at a file last modified on 5 March 2024 holding
  the document with two allocations.
\<close>

theorem C6_provenance_date_witness:
  "formatted_mod_date (\<lambda>p. Inl OSError) ''in.csv'' = [] \<and>
   formatted_mod_date (\<lambda>p. Inr \<lparr>year = 2024, month = 3, day = 5\<rparr>) ''in.csv'' = ''2024-03-05'' \<and>
   decimal (take 4 ''2024-03-05'') = 2024 \<and> decimal (take 2 (drop 5 ''2024-03-05'')) = 3 \<and>
   decimal (drop 8 ''2024-03-05'') = 5 \<and>
   main_costing (\<lambda>p. Inr \<lparr>year = 2024, month = 3, day = 5\<rparr>) ''in.csv'' ''out.csv''
       [''in.csv'' \<mapsto> Xml costing_document] ''out.csv'' =
     Some (Csv (headers_costing # rows_of_root_costing ''2024-03-05'' costing_document)) \<and>
   length (rows_of_root_costing ''2024-03-05'' costing_document) = 2 \<and>
   field_of headers_costing (rows_of_root_costing ''2024-03-05'' costing_document ! 0)
     ''Updated_Date'' = Some ''2024-03-05'' \<and>
   field_of headers_costing (rows_of_root_costing ''2024-03-05'' costing_document ! 1)
     ''Updated_Date'' = Some ''2024-03-05''"
proof -
  let ?dt = "\<lparr>year = 2024, month = 3, day = 5\<rparr>"
  let ?clock = "\<lambda>p::string. Inr ?dt :: exn + datetime"
  let ?f = "[''in.csv'' \<mapsto> Xml costing_document]"
  have s: "strftime_Ymd ?dt = ''2024-03-05''" by code_simp
  have c1: "formatted_mod_date (\<lambda>p. Inl OSError) ''in.csv'' = []"
    using C6_provenance_date [of "\<lambda>p. Inl OSError" "''in.csv''" ?f "''out.csv''"] by simp
  note inst = C6_provenance_date [of ?clock "''in.csv''" ?f "''out.csv''"]
  from inst s have c2: "formatted_mod_date ?clock ''in.csv'' = ''2024-03-05''" by simp
  have b: "month ?dt < 100 \<and> day ?dt < 100" by simp
  from inst b have
    "decimal (take (length (strftime_Ymd ?dt) - 6) (strftime_Ymd ?dt)) = year ?dt \<and>
     decimal (take 2 (drop (length (strftime_Ymd ?dt) - 5) (strftime_Ymd ?dt))) = month ?dt \<and>
     decimal (drop (length (strftime_Ymd ?dt) - 2) (strftime_Ymd ?dt)) = day ?dt"
    by blast
  then have c0: "decimal (take 4 ''2024-03-05'') = 2024 \<and>
     decimal (take 2 (drop 5 ''2024-03-05'')) = 3 \<and> decimal (drop 8 ''2024-03-05'') = 5"
    unfolding s by simp
  have x: "?f ''in.csv'' = Some (Xml costing_document)" by simp
  from inst x have c3: "main_costing ?clock ''in.csv'' ''out.csv'' ?f ''out.csv'' =
     Some (Csv (headers_costing #
       rows_of_root_costing (formatted_mod_date ?clock ''in.csv'') costing_document))"
    by blast
  from inst x have c4: "\<forall>row\<in>set (rows_of_root_costing (formatted_mod_date ?clock ''in.csv'')
        costing_document).
      field_of headers_costing row ''Updated_Date'' = Some (formatted_mod_date ?clock ''in.csv'')"
    by blast
  have l: "length (rows_of_root_costing ''2024-03-05'' costing_document) = 2" by code_simp
  from c4 l show ?thesis unfolding c2 using c0 c1 c3 [unfolded c2] by simp
qed

section \<open>The rows of an entry with expansion children\<close>

text \<open>
  C7. For an entry with N >= 1 expansion children there are N rows, and row i is the row
  of child i in document order: under every expansion-owned column it holds what that
  child alone determines, and under every other column it holds the entry-level value,
  the same in all N rows. This holds in the costing-allocations parser (columns of the
  written line) and in the position-compensation parser (values of the row mapping, which
  the driver writes with the default for a missing key).
\<close>

theorem C7_expansion_rows:
  "(el_findall e [Child (wdc ''AllocationDetails'')] \<noteq> [] \<longrightarrow>
      length (entry_rows_costing d e) =
        length (el_findall e [Child (wdc ''AllocationDetails'')]) \<and>
      (\<forall>i<length (el_findall e [Child (wdc ''AllocationDetails'')]).
         \<forall>h\<in>set headers_costing.
           field_of headers_costing (entry_rows_costing d e ! i) h =
             Some (if h \<in> set allocation_keys
                   then dict_get (allocation_data []
                          (el_findall e [Child (wdc ''AllocationDetails'')] ! i)) h []
                   else dict_get (worker_data_of d e) h []))) \<and>
   (el_findall e' [Child (wdp ''Compensation_Plan_Assignments'')] \<noteq> [] \<longrightarrow>
      length (entry_rows_comp d e') =
        length (el_findall e' [Child (wdp ''Compensation_Plan_Assignments'')]) \<and>
      (\<forall>i<length (el_findall e' [Child (wdp ''Compensation_Plan_Assignments'')]). \<forall>h.
           dict_get (entry_rows_comp d e' ! i) h dflt =
             (if h \<in> set comp_keys
              then dict_get (comp_assignment_row []
                     (el_findall e' [Child (wdp ''Compensation_Plan_Assignments'')] ! i)) h dflt
              else dict_get (worker_group_data_of d e') h dflt)))"
proof (intro conjI impI allI ballI)
  assume "el_findall e [Child (wdc ''AllocationDetails'')] \<noteq> []"
  then show "length (entry_rows_costing d e) =
        length (el_findall e [Child (wdc ''AllocationDetails'')])"
    by (simp add: entry_rows_costing_def Let_def)
next
  fix i h
  assume ne: "el_findall e [Child (wdc ''AllocationDetails'')] \<noteq> []"
    and i: "i < length (el_findall e [Child (wdc ''AllocationDetails'')])"
    and h: "h \<in> set headers_costing"
  from ne i have "entry_rows_costing d e ! i =
      row_of (allocation_data (worker_data_of d e)
                (el_findall e [Child (wdc ''AllocationDetails'')] ! i))"
    by (simp add: entry_rows_costing_def Let_def)
  with h show "field_of headers_costing (entry_rows_costing d e ! i) h =
             Some (if h \<in> set allocation_keys
                   then dict_get (allocation_data []
                          (el_findall e [Child (wdc ''AllocationDetails'')] ! i)) h []
                   else dict_get (worker_data_of d e) h [])"
    using allocation_data_own [of h "worker_data_of d e"] allocation_data_other [of h]
    by (simp add: row_of_field)
next
  assume "el_findall e' [Child (wdp ''Compensation_Plan_Assignments'')] \<noteq> []"
  then show "length (entry_rows_comp d e') =
        length (el_findall e' [Child (wdp ''Compensation_Plan_Assignments'')])"
    by (simp add: length_entry_rows_comp)
next
  fix i h
  assume ne: "el_findall e' [Child (wdp ''Compensation_Plan_Assignments'')] \<noteq> []"
    and i: "i < length (el_findall e' [Child (wdp ''Compensation_Plan_Assignments'')])"
  from ne i have "entry_rows_comp d e' ! i =
      comp_assignment_row (worker_group_data_of d e')
        (el_findall e' [Child (wdp ''Compensation_Plan_Assignments'')] ! i)"
    by (simp add: entry_rows_comp_def Let_def)
  then show "dict_get (entry_rows_comp d e' ! i) h dflt =
             (if h \<in> set comp_keys
              then dict_get (comp_assignment_row []
                     (el_findall e' [Child (wdp ''Compensation_Plan_Assignments'')] ! i)) h dflt
              else dict_get (worker_group_data_of d e') h dflt)"
    using comp_assignment_row_own [of h "worker_group_data_of d e'"] keys_worker_group_data
      comp_assignment_row_other [of h]
    by simp
qed

text \<open>
  The theorem at the worker with position P100 and allocations of 60 and 40 percent, and
  at the worker group with plan assignments of 1200 and 300.
\<close>

theorem C7_expansion_rows_witness:
  "length (entry_rows_costing ''2024-03-05'' costing_entry_two_allocations) = 2 \<and>
   field_of headers_costing (entry_rows_costing ''2024-03-05'' costing_entry_two_allocations ! 0)
     ''Position_ID'' = Some ''P100'' \<and>
   field_of headers_costing (entry_rows_costing ''2024-03-05'' costing_entry_two_allocations ! 1)
     ''Position_ID'' = Some ''P100'' \<and>
   field_of headers_costing (entry_rows_costing ''2024-03-05'' costing_entry_two_allocations ! 0)
     ''Distribution_Percent'' = Some ''60'' \<and>
   field_of headers_costing (entry_rows_costing ''2024-03-05'' costing_entry_two_allocations ! 1)
     ''Distribution_Percent'' = Some ''40'' \<and>
   length (entry_rows_comp ''2024-03-05'' comp_entry_two_assignments) = 2 \<and>
   dict_get (entry_rows_comp ''2024-03-05'' comp_entry_two_assignments ! 0)
     ''Position_ID'' (Some []) = Some ''P100'' \<and>
   dict_get (entry_rows_comp ''2024-03-05'' comp_entry_two_assignments ! 1)
     ''Position_ID'' (Some []) = Some ''P100'' \<and>
   dict_get (entry_rows_comp ''2024-03-05'' comp_entry_two_assignments ! 0)
     ''Annualized_Amount'' (Some []) = Some ''1200'' \<and>
   dict_get (entry_rows_comp ''2024-03-05'' comp_entry_two_assignments ! 1)
     ''Annualized_Amount'' (Some []) = Some ''300''"
proof -
  let ?a = costing_entry_two_allocations
  let ?b = comp_entry_two_assignments
  let ?d = "''2024-03-05''"
  let ?a1 = "Element (wdc ''AllocationDetails'') [] None
               [Element (wdc ''Distribution_Percent'') [] (Some ''60'') []]"
  let ?a2 = "Element (wdc ''AllocationDetails'') [] None
               [Element (wdc ''Distribution_Percent'') [] (Some ''40'') []]"
  let ?b1 = "Element (wdp ''Compensation_Plan_Assignments'') [] None
               [Element (wdp ''Annualized_Amount'') [] (Some ''1200'') []]"
  let ?b2 = "Element (wdp ''Compensation_Plan_Assignments'') [] None
               [Element (wdp ''Annualized_Amount'') [] (Some ''300'') []]"
  note inst = C7_expansion_rows [of ?a ?d ?b "Some []"]
  have fa: "el_findall ?a [Child (wdc ''AllocationDetails'')] = [?a1, ?a2]" by code_simp
  have fb: "el_findall ?b [Child (wdp ''Compensation_Plan_Assignments'')] = [?b1, ?b2]"
    by code_simp
  have ka: "''Position_ID'' \<in> set headers_costing" "''Position_ID'' \<notin> set allocation_keys"
    "''Distribution_Percent'' \<in> set headers_costing"
    "''Distribution_Percent'' \<in> set allocation_keys"
    by (simp_all add: headers_costing_def allocation_keys_def)
  have kb: "''Position_ID'' \<notin> set comp_keys" "''Annualized_Amount'' \<in> set comp_keys"
    by (simp_all add: comp_keys_def)
  have va: "dict_get (worker_data_of ?d ?a) ''Position_ID'' [] = ''P100''"
    "dict_get (allocation_data [] ?a1) ''Distribution_Percent'' [] = ''60''"
    "dict_get (allocation_data [] ?a2) ''Distribution_Percent'' [] = ''40''"
    by code_simp+
  have vb: "dict_get (worker_group_data_of ?d ?b) ''Position_ID'' (Some []) = Some ''P100''"
    "dict_get (comp_assignment_row [] ?b1) ''Annualized_Amount'' (Some []) = Some ''1200''"
    "dict_get (comp_assignment_row [] ?b2) ''Annualized_Amount'' (Some []) = Some ''300''"
    by code_simp+
  from inst have A: "length (entry_rows_costing ?d ?a) = 2"
    and A': "\<And>i h. i < 2 \<Longrightarrow> h \<in> set headers_costing \<Longrightarrow>
      field_of headers_costing (entry_rows_costing ?d ?a ! i) h =
             Some (if h \<in> set allocation_keys
                   then dict_get (allocation_data [] ([?a1, ?a2] ! i)) h []
                   else dict_get (worker_data_of ?d ?a) h [])"
    unfolding fa by simp_all
  from inst have B: "length (entry_rows_comp ?d ?b) = 2"
    and B': "\<And>i h. i < 2 \<Longrightarrow>
           dict_get (entry_rows_comp ?d ?b ! i) h (Some []) =
             (if h \<in> set comp_keys
              then dict_get (comp_assignment_row [] ([?b1, ?b2] ! i)) h (Some [])
              else dict_get (worker_group_data_of ?d ?b) h (Some []))"
    unfolding fb by simp_all
  show ?thesis
    using A A' [of 0 "''Position_ID''"] A' [of 1 "''Position_ID''"]
      A' [of 0 "''Distribution_Percent''"] A' [of 1 "''Distribution_Percent''"]
      B B' [of 0 "''Position_ID''"] B' [of 1 "''Position_ID''"]
      B' [of 0 "''Annualized_Amount''"] B' [of 1 "''Annualized_Amount''"]
    by (simp add: ka kb va vb)
qed

section \<open>The worktags of a grant entry\<close>



section \<open>The costing driver after a failed parse\<close>

text \<open>
  C10. In the costing-allocations driver, when the input exists and the parse function
  returns \<open>None\<close>, an output file that already exists is left as it is (the whole file
  system is unchanged), and a header-only file is created exactly when no output file
  exists.
\<close>

theorem C10_stale_output_kept:
  assumes "os_path_exists f xml_input_file"
    and "parse_funding_actuals_xml f xml_input_file
           (formatted_mod_date getmtime xml_input_file) = None"
  shows "main_costing getmtime xml_input_file csv_output_file f =
           (if os_path_exists f csv_output_file then f
            else f(csv_output_file \<mapsto> Csv [headers_costing]))"
  using assms by (simp add: main_costing_def Let_def write_rows_def)

theorem C10_stale_output_kept_witness:
  "os_path_exists [''in.csv'' \<mapsto> Garbage, ''out.csv'' \<mapsto> Csv [[''old'']]] ''in.csv'' \<and>
   main_costing (\<lambda>p. Inl OSError) ''in.csv'' ''out.csv''
       [''in.csv'' \<mapsto> Garbage, ''out.csv'' \<mapsto> Csv [[''old'']]] ''out.csv'' = Some (Csv [[''old'']]) \<and>
   main_costing (\<lambda>p. Inl OSError) ''in.csv'' ''out.csv''
       [''in.csv'' \<mapsto> Garbage, ''out.csv'' \<mapsto> Csv [[''old'']]] =
       [''in.csv'' \<mapsto> Garbage, ''out.csv'' \<mapsto> Csv [[''old'']]]"
proof -
  let ?f = "[''in.csv'' \<mapsto> Garbage, ''out.csv'' \<mapsto> Csv [[''old'']]]"
  have e: "os_path_exists ?f ''in.csv''" by (simp add: os_path_exists_def)
  have p: "parse_funding_actuals_xml ?f ''in.csv'' (formatted_mod_date (\<lambda>p. Inl OSError) ''in.csv'') = None"
    by (simp add: parse_funding_actuals_xml_def ET_parse_def)
  have o: "os_path_exists ?f ''out.csv''" by (simp add: os_path_exists_def)
  from C10_stale_output_kept [OF e p, of "''out.csv''"] o e show ?thesis by simp
qed

end
